theory Spec2Isabelle
  imports Main "HOL-Library.AList" "HOL-Library.List_Lexorder" "HOL-Library.Char_ord"
begin

text \<open>
  The generic row operations of \<open>electron/database/DatabaseActions.ts\<close>: \<open>getItem\<close>,
  \<open>getAllItems\<close>, \<open>createItems\<close>, \<open>updateItems\<close>, \<open>deleteItems\<close> and the helper
  \<open>decrementLastUndoGroup\<close>, as functions on an explicit state. The store behind the
  \<open>better-sqlite3\<close> handle is modelled for the statements these functions issue; a
  statement that cannot be compiled or run throws, which the model writes as \<open>Inl\<close>. The
  History module and the wall clock are parameters of the operations.
\<close>

section \<open>JavaScript values, objects and errors\<close>

text \<open>
  The values the engine stores and passes around are SQLite scalars. An object is the list
  of its own enumerable properties in insertion order, as \<open>Object.keys\<close> reports them;
  assigning a property is \<open>AList.update\<close> (it overwrites in place or appends) and the
  rest pattern \<open>{ id, ...rest }\<close> is \<open>AList.delete\<close>.
\<close>

datatype sqlval = Null | Num int | Text string

type_synonym obj = "(string \<times> sqlval) list"

definition Object_keys :: "obj \<Rightarrow> string list" where
  "Object_keys ob = map fst ob"

text \<open>
  \<open>item.id\<close>, typed \<open>number\<close> by the TypeScript signatures. \<open>None\<close> is
  JavaScript's \<open>undefined\<close>: the property is absent at runtime. A property that holds
  something other than a number is outside the signatures and read as absent too.
\<close>

definition prop_id :: "obj \<Rightarrow> int option" where
  "prop_id ob = (case map_of ob ''id'' of Some (Num n) \<Rightarrow> Some n | _ \<Rightarrow> None)"

text \<open>An \<open>Error\<close> object: its message and its stack, when it has one.\<close>

record js_error =
  message :: string
  stack :: "string option"

definition Error :: "string \<Rightarrow> js_error" where
  "Error msg = \<lparr>message = msg, stack = Some (''Error: '' @ msg)\<rparr>"

definition SqliteError :: "string \<Rightarrow> js_error" where
  "SqliteError msg = \<lparr>message = msg, stack = Some (''SqliteError: '' @ msg)\<rparr>"

definition TypeError :: "string \<Rightarrow> js_error" where
  "TypeError msg = \<lparr>message = msg, stack = Some (''TypeError: '' @ msg)\<rparr>"

definition RangeError :: "string \<Rightarrow> js_error" where
  "RangeError msg = \<lparr>message = msg, stack = Some (''RangeError: '' @ msg)\<rparr>"

text \<open>\<open>a || b\<close> on strings: the empty string is falsy, and so is \<open>undefined\<close>.\<close>

definition or_else :: "string \<Rightarrow> string \<Rightarrow> string" where
  "or_else a b = (if a = [] then b else a)"

definition or_else_opt :: "string option \<Rightarrow> string \<Rightarrow> string" where
  "or_else_opt a b = (case a of None \<Rightarrow> b | Some s \<Rightarrow> or_else s b)"

subsection \<open>Numbers in strings\<close>

definition digit_char :: "nat \<Rightarrow> char" where
  "digit_char n = ''0123456789'' ! n"

fun digits :: "nat \<Rightarrow> string" where
  "digits n = (if n < 10 then [digit_char n] else digits (n div 10) @ [digit_char (n mod 10)])"

declare digits.simps [simp del]

definition String_of_int :: "int \<Rightarrow> string" where
  "String_of_int i = (if i < 0 then ''-'' @ digits (nat (- i)) else digits (nat i))"

text \<open>A number or \<open>undefined\<close> inside a template literal, \<open>`${id}`\<close>.\<close>

definition template :: "int option \<Rightarrow> string" where
  "template i = (case i of None \<Rightarrow> ''undefined'' | Some n \<Rightarrow> String_of_int n)"

text \<open>\<open>Array.prototype.join\<close>: \<open>undefined\<close> elements print as the empty string.\<close>

definition join_elem :: "int option \<Rightarrow> string" where
  "join_elem i = (case i of None \<Rightarrow> [] | Some n \<Rightarrow> String_of_int n)"

fun join :: "string \<Rightarrow> string list \<Rightarrow> string" where
  "join sep [] = []"
| "join sep [x] = x"
| "join sep (x # y # ys) = x @ sep @ join sep (y # ys)"

text \<open>
  \<open>new Set(xs)\<close>, as the list of its elements in iteration order: each element once, at
  the place of its first insertion.
\<close>

definition Set_from :: "'a list \<Rightarrow> 'a list" where
  "Set_from xs = fold (\<lambda>x acc. if x \<in> set acc then acc else acc @ [x]) xs []"

section \<open>The store\<close>

text \<open>
  A row carries its integer row identifier and the values of the declared columns. A table
  is its declared columns and its rows. Every write is captured, by the table's history
  triggers, as one history record tagged with the undo group active at the time of the
  write; the record keeps what is needed to reverse the change.
\<close>

record row =
  rowid :: int
  cells :: obj

record table =
  column_names :: "string list"
  rows :: "row list"

datatype change =
    Inserted string int
  | Updated string int int obj
  | Deleted string int obj

record history_record =
  history_group :: int
  change :: change

record database =
  tables :: "(string \<times> table) list"
  undo_log :: "history_record list"
  redo_log :: "history_record list list"
  cur_undo_group :: int

text \<open>SQL's \<open>MAX\<close> aggregate: \<open>NULL\<close> over no rows.\<close>

fun sql_max :: "int list \<Rightarrow> int option" where
  "sql_max [] = None"
| "sql_max (x # xs) = Some (fold max xs x)"

definition known_column :: "table \<Rightarrow> string \<Rightarrow> bool" where
  "known_column T c = (c = ''rowid'' \<or> c \<in> set (column_names T))"

definition matches :: "string \<Rightarrow> int \<Rightarrow> row \<Rightarrow> bool" where
  "matches c i r = (if c = ''rowid'' then rowid r = i else map_of (cells r) c = Some (Num i))"

definition bind_error :: js_error where
  "bind_error = TypeError ''SQLite3 can only bind numbers, strings, bigints, buffers, and null''"

text \<open>
  \<open>db.prepare(`SELECT * FROM ${tableName} WHERE "${idColumn}" = ?`).get(id)\<close>: the
  statement does not compile against a missing table or an unknown column, \<open>undefined\<close>
  cannot be bound, and otherwise the first matching row comes back, or \<open>undefined\<close>.
\<close>

definition stmt_get :: "database \<Rightarrow> string \<Rightarrow> string \<Rightarrow> int option \<Rightarrow> js_error + row option" where
  "stmt_get d tableName idColumn i =
    (case map_of (tables d) tableName of
       None \<Rightarrow> Inl (SqliteError (''no such table: '' @ tableName))
     | Some T \<Rightarrow>
        if \<not> known_column T idColumn then Inl (SqliteError (''no such column: '' @ idColumn))
        else (case i of
                None \<Rightarrow> Inl bind_error
              | Some n \<Rightarrow> Inr (find (matches idColumn n) (rows T))))"

text \<open>\<open>db.prepare(`SELECT * FROM ${tableName}`).all()\<close>\<close>

definition stmt_all :: "database \<Rightarrow> string \<Rightarrow> js_error + row list" where
  "stmt_all d tableName =
    (case map_of (tables d) tableName of
       None \<Rightarrow> Inl (SqliteError (''no such table: '' @ tableName))
     | Some T \<Rightarrow> Inr (rows T))"

text \<open>\<open>PRAGMA table_info\<close>: no rows for a table that does not exist.\<close>

definition table_info :: "database \<Rightarrow> string \<Rightarrow> string list" where
  "table_info d tableName =
    (case map_of (tables d) tableName of None \<Rightarrow> [] | Some T \<Rightarrow> column_names T)"

subsection \<open>Writes\<close>

definition next_rowid :: "table \<Rightarrow> int" where
  "next_rowid T = (case sql_max (map rowid (rows T)) of None \<Rightarrow> 1 | Some m \<Rightarrow> m + 1)"

text \<open>
  The row identifier a write names through the \<open>rowid\<close> column: none named (or
  \<open>NULL\<close>) leaves the choice to \<open>dflt\<close>; an identifier another row holds violates
  uniqueness; a text is no identifier.
\<close>

definition named_rowid :: "table \<Rightarrow> obj \<Rightarrow> int \<Rightarrow> int list \<Rightarrow> js_error + int" where
  "named_rowid T item dflt taken =
    (case map_of item ''rowid'' of
       None \<Rightarrow> Inr dflt
     | Some Null \<Rightarrow> Inr dflt
     | Some (Num n) \<Rightarrow>
         if n \<in> set taken then Inl (SqliteError ''UNIQUE constraint failed: rowid'') else Inr n
     | Some (Text s) \<Rightarrow> Inl (SqliteError ''datatype mismatch''))"

text \<open>
  Modelled from the spec: the history triggers (\<open>createUndoTriggers\<close> of the History
  module) are missing from the sources. A write is recorded in the undo history with the
  group active at the time of the write.
\<close>

definition capture :: "change \<Rightarrow> database \<Rightarrow> database" where
  "capture c d = d\<lparr>undo_log := undo_log d @ [\<lparr>history_group = cur_undo_group d, change = c\<rparr>]\<rparr>"

definition put_table :: "string \<Rightarrow> table \<Rightarrow> database \<Rightarrow> database" where
  "put_table tableName T d = d\<lparr>tables := AList.update tableName T (tables d)\<rparr>"

text \<open>
  \<open>db.prepare(`INSERT INTO ${tableName} (c1, ...) VALUES (@c1, ...)`)\<close>: compiling
  fails on a missing table, on an empty column list and on a column the table does not have.
\<close>

definition prepare_insert :: "database \<Rightarrow> string \<Rightarrow> string list \<Rightarrow> js_error option" where
  \<open>prepare_insert d tableName cols =
    (case map_of (tables d) tableName of
       None \<Rightarrow> Some (SqliteError (''no such table: '' @ tableName))
     | Some T \<Rightarrow>
        (case cols of
           [] \<Rightarrow> Some (SqliteError ''near ")": syntax error'')
         | _ \<Rightarrow>
            (case filter (\<lambda>c. \<not> known_column T c) cols of
               [] \<Rightarrow> None
             | c # _ \<Rightarrow> Some (SqliteError (''table '' @ tableName @ '' has no column named '' @ c)))))\<close>

text \<open>
  \<open>stmt.run(newItem)\<close> of that statement: the new row takes the named or the next free
  identifier, the columns not named are \<open>NULL\<close>, and \<open>lastInsertRowid\<close> comes back.
\<close>

definition run_insert :: "database \<Rightarrow> string \<Rightarrow> obj \<Rightarrow> js_error + (int \<times> database)" where
  "run_insert d tableName item =
    (case map_of (tables d) tableName of
       None \<Rightarrow> Inl (SqliteError (''no such table: '' @ tableName))
     | Some T \<Rightarrow>
        (case named_rowid T item (next_rowid T) (map rowid (rows T)) of
           Inl e \<Rightarrow> Inl e
         | Inr rid \<Rightarrow>
            Inr (rid,
              capture (Inserted tableName rid)
                (put_table tableName
                  (T\<lparr>rows := rows T @
                     [\<lparr>rowid = rid,
                       cells = map (\<lambda>c. (c, case map_of item c of None \<Rightarrow> Null | Some v \<Rightarrow> v))
                                 (column_names T)\<rparr>]\<rparr>) d))))"

text \<open>
  \<open>db.prepare(`UPDATE ${tableName} SET "c1" = @c1, ... WHERE "rowid" = @id`)\<close>: compiling
  fails on a missing table, on an empty assignment list and on an unknown column.
\<close>

definition prepare_update :: "database \<Rightarrow> string \<Rightarrow> string list \<Rightarrow> js_error option" where
  \<open>prepare_update d tableName cols =
    (case map_of (tables d) tableName of
       None \<Rightarrow> Some (SqliteError (''no such table: '' @ tableName))
     | Some T \<Rightarrow>
        (case cols of
           [] \<Rightarrow> Some (SqliteError ''near "WHERE": syntax error'')
         | _ \<Rightarrow>
            (case filter (\<lambda>c. \<not> known_column T c) cols of
               [] \<Rightarrow> None
             | c # _ \<Rightarrow> Some (SqliteError (''no such column: '' @ c)))))\<close>

text \<open>
  \<open>stmt.run(updatedItem)\<close> of that statement. The named parameter \<open>@id\<close> must be a
  property of the object. A row with that identifier takes the assigned values (its
  identifier too, when \<open>rowid\<close> is assigned); with no such row nothing changes.
\<close>

definition run_update :: "database \<Rightarrow> string \<Rightarrow> obj \<Rightarrow> js_error + database" where
  \<open>run_update d tableName updatedItem =
    (case map_of (tables d) tableName of
       None \<Rightarrow> Inl (SqliteError (''no such table: '' @ tableName))
     | Some T \<Rightarrow>
        if ''id'' \<notin> set (Object_keys updatedItem) then Inl (RangeError ''Missing named parameter "id"'')
        else
          (case prop_id updatedItem of
             None \<Rightarrow> Inr d
           | Some i \<Rightarrow>
              (case find (\<lambda>r. rowid r = i) (rows T) of
                 None \<Rightarrow> Inr d
               | Some r \<Rightarrow>
                  (case named_rowid T (AList.delete ''id'' updatedItem) i
                          (filter (\<lambda>n. n \<noteq> i) (map rowid (rows T))) of
                     Inl e \<Rightarrow> Inl e
                   | Inr n \<Rightarrow>
                      Inr (capture (Updated tableName i n (cells r))
                        (put_table tableName
                          (T\<lparr>rows := map (\<lambda>x. if rowid x = i
                                 then \<lparr>rowid = n,
                                       cells = map (\<lambda>(c, v). (c, case map_of (AList.delete ''id'' updatedItem) c of
                                                                None \<Rightarrow> v | Some w \<Rightarrow> w)) (cells r)\<rparr>
                                 else x) (rows T)\<rparr>) d))))))\<close>

text \<open>\<open>db.prepare(`DELETE FROM ${tableName} WHERE "${idColumn}" = ?`)\<close>\<close>

definition prepare_delete :: "database \<Rightarrow> string \<Rightarrow> string \<Rightarrow> js_error option" where
  "prepare_delete d tableName idColumn =
    (case map_of (tables d) tableName of
       None \<Rightarrow> Some (SqliteError (''no such table: '' @ tableName))
     | Some T \<Rightarrow>
        if \<not> known_column T idColumn then Some (SqliteError (''no such column: '' @ idColumn))
        else None)"

text \<open>\<open>stmt.run(id)\<close> of that statement: every matching row goes, each one captured.\<close>

definition run_delete :: "database \<Rightarrow> string \<Rightarrow> string \<Rightarrow> int \<Rightarrow> js_error + database" where
  "run_delete d tableName idColumn i =
    (case map_of (tables d) tableName of
       None \<Rightarrow> Inl (SqliteError (''no such table: '' @ tableName))
     | Some T \<Rightarrow>
        Inr (fold (\<lambda>r. capture (Deleted tableName (rowid r) (cells r)))
               (filter (matches idColumn i) (rows T))
               (put_table tableName (T\<lparr>rows := filter (\<lambda>r. \<not> matches idColumn i r) (rows T)\<rparr>) d)))"

section \<open>The program state and its environment\<close>

text \<open>
  The state the functions work on: the store behind the \<open>db\<close> handle, the objects of
  the JavaScript heap (an argument item is the address of its object), the number of clock
  readings taken so far, and the trace of what was done to the store: every call into the
  History module, every call of \<open>decrementLastUndoGroup\<close>, every write statement that ran,
  every warning logged.
\<close>

datatype stmt_kind = INSERT | UPDATE | DELETE

datatype event =
    GetCurrentUndoGroup
  | IncrementUndoGroup
  | PerformUndo
  | ClearMostRecentRedo
  | DecrementLastUndoGroup
  | Ran stmt_kind string
  | Warn string

record state =
  db :: database
  heap :: "obj list"
  ticks :: nat
  trace :: "event list"

text \<open>
  The History module (\<open>database.history\<close>) is imported by the source and is not part of
  it, and the wall clock is outside the program: both are parameters. The four History
  functions act on the store; \<open>toISOString n\<close> is what the \<open>n\<close>-th reading of the clock
  prints.
\<close>

record env =
  getCurrentUndoGroup :: "database \<Rightarrow> int"
  incrementUndoGroup :: "database \<Rightarrow> int \<times> database"
  performUndo :: "database \<Rightarrow> database"
  clearMostRecentRedo :: "database \<Rightarrow> database"
  toISOString :: "nat \<Rightarrow> string"

definition History_getCurrentUndoGroup :: "env \<Rightarrow> state \<Rightarrow> int \<times> state" where
  "History_getCurrentUndoGroup E st =
    (getCurrentUndoGroup E (db st), st\<lparr>trace := trace st @ [GetCurrentUndoGroup]\<rparr>)"

definition History_incrementUndoGroup :: "env \<Rightarrow> state \<Rightarrow> int \<times> state" where
  "History_incrementUndoGroup E st =
    (fst (incrementUndoGroup E (db st)),
     st\<lparr>db := snd (incrementUndoGroup E (db st)), trace := trace st @ [IncrementUndoGroup]\<rparr>)"

definition History_performUndo :: "env \<Rightarrow> state \<Rightarrow> state" where
  "History_performUndo E st = st\<lparr>db := performUndo E (db st), trace := trace st @ [PerformUndo]\<rparr>"

definition History_clearMostRecentRedo :: "env \<Rightarrow> state \<Rightarrow> state" where
  "History_clearMostRecentRedo E st =
    st\<lparr>db := clearMostRecentRedo E (db st), trace := trace st @ [ClearMostRecentRedo]\<rparr>"

text \<open>\<open>new Date().toISOString()\<close>\<close>

definition new_Date_toISOString :: "env \<Rightarrow> state \<Rightarrow> string \<times> state" where
  "new_Date_toISOString E st = (toISOString E (ticks st), st\<lparr>ticks := Suc (ticks st)\<rparr>)"

text \<open>Reading an object, creating one (\<open>{ ...x }\<close>), assigning one of its properties.\<close>

definition deref :: "state \<Rightarrow> nat \<Rightarrow> obj" where
  "deref st a = (if a < length (heap st) then heap st ! a else [])"

definition alloc :: "obj \<Rightarrow> state \<Rightarrow> nat \<times> state" where
  "alloc ob st = (length (heap st), st\<lparr>heap := heap st @ [ob]\<rparr>)"

definition assign :: "nat \<Rightarrow> string \<Rightarrow> sqlval \<Rightarrow> state \<Rightarrow> state" where
  "assign a k v st = st\<lparr>heap := (heap st)[a := AList.update k v (deref st a)]\<rparr>"

section \<open>DatabaseActions\<close>

record 'a DatabaseResponse =
  success :: bool
  error :: "js_error option"
  data :: 'a

text \<open>What the \<open>catch\<close> blocks of the array-valued operations build from the fault.\<close>

definition failure :: "js_error \<Rightarrow> string \<Rightarrow> 'a list DatabaseResponse" where
  "failure e dflt =
    \<lparr>success = False,
     error = Some \<lparr>message = or_else (message e) dflt,
                   stack = Some (or_else_opt (stack e) ''Unable to get error stack'')\<rparr>,
     data = []\<rparr>"

text \<open>
  \<open>decrementLastUndoGroup\<close>: \<open>if (previousGroup)\<close> tests truthiness, which \<open>NULL\<close> and
  \<open>0\<close> both fail.
\<close>

definition decrementLastUndoGroup :: "database \<Rightarrow> database" where
  "decrementLastUndoGroup d =
    (let maxGroup = sql_max (map history_group (undo_log d));
         previousGroup =
           (case maxGroup of
              None \<Rightarrow> None
            | Some m \<Rightarrow> sql_max (filter (\<lambda>g. g < m) (map history_group (undo_log d))))
     in case (maxGroup, previousGroup) of
          (Some m, Some p) \<Rightarrow>
            if p \<noteq> 0
            then d\<lparr>undo_log := map (\<lambda>h. if history_group h = m then h\<lparr>history_group := p\<rparr> else h)
                                    (undo_log d)\<rparr>
            else d
        | _ \<Rightarrow> d)"

definition call_decrementLastUndoGroup :: "state \<Rightarrow> state" where
  "call_decrementLastUndoGroup st =
    st\<lparr>db := decrementLastUndoGroup (db st), trace := trace st @ [DecrementLastUndoGroup]\<rparr>"

definition getItem :: "database \<Rightarrow> string \<Rightarrow> string \<Rightarrow> int option \<Rightarrow> row option DatabaseResponse" where
  \<open>getItem d tableName idColumn i =
    (case stmt_get d tableName idColumn i of
       Inr None \<Rightarrow>
         \<lparr>success = False,
          error = Some \<lparr>message = ''No item with "'' @ idColumn @ ''"='' @ template i @
                                   '' in table "'' @ tableName @ ''"'',
                        stack = None\<rparr>,
          data = None\<rparr>
     | Inr (Some result) \<Rightarrow> \<lparr>success = True, error = None, data = Some result\<rparr>
     | Inl e \<Rightarrow>
         \<lparr>success = False,
          error = Some \<lparr>message = or_else (message e)
                                    (''Error getting item "'' @ idColumn @ ''"='' @ template i),
                        stack = Some (or_else_opt (stack e) ''Unable to get error stack'')\<rparr>,
          data = None\<rparr>)\<close>

definition getColumns :: "database \<Rightarrow> string \<Rightarrow> string set" where
  "getColumns d tableName = set (table_info d tableName)"

text \<open>In \<open>getAllItems\<close> the result of \<open>all()\<close> is an array, and every array is truthy.\<close>

definition truthy_array :: "'a list \<Rightarrow> bool" where
  "truthy_array xs = True"

definition getAllItems :: "database \<Rightarrow> string \<Rightarrow> row list DatabaseResponse" where
  \<open>getAllItems d tableName =
    (case stmt_all d tableName of
       Inr result \<Rightarrow>
         if \<not> truthy_array result
         then \<lparr>success = False,
               error = Some \<lparr>message = ''No items in table "'' @ tableName @ ''"'', stack = None\<rparr>,
               data = []\<rparr>
         else \<lparr>success = True, error = None, data = result\<rparr>
     | Inl e \<Rightarrow> failure e (''Error getting items from '' @ tableName))\<close>

text \<open>
  \<open>insertClause\<close> names the keys of the object, sorted, as the columns of the statement and
  binds each to the parameter of its own name: the statement is determined by this list.
\<close>

definition insertClause :: "obj \<Rightarrow> string list" where
  "insertClause args = sort (Object_keys args)"

subsection \<open>createItems\<close>

text \<open>
  The object a loop round of \<open>createItems\<close> inserts: a copy of the caller's item, without
  its \<open>id\<close> (a second fresh object, by the rest pattern), stamped with one reading of the
  clock in the timestamp columns the table has.
\<close>

definition createItems_item :: "env \<Rightarrow> string set \<Rightarrow> nat \<Rightarrow> state \<Rightarrow> nat \<times> state" where
  "createItems_item E columns oldItem st =
    (let (item, st1) = alloc (deref st oldItem) st;
         (itemToInsert, st2) =
           (if ''id'' \<in> set (Object_keys (deref st1 item))
            then alloc (AList.delete ''id'' (deref st1 item)) st1
            else (item, st1));
         (createdAt, st3) = new_Date_toISOString E st2;
         st4 = (if ''created_at'' \<in> columns
                then assign itemToInsert ''created_at'' (Text createdAt) st3 else st3);
         st5 = (if ''updated_at'' \<in> columns
                then assign itemToInsert ''updated_at'' (Text createdAt) st4 else st4)
     in (itemToInsert, st5))"

text \<open>
  The insert loop. A fault leaves the loop with the state as it is then; the flag
  \<open>actionWasPerformed\<close> is raised between compiling the statement and running it.
\<close>

fun createItems_loop ::
  "env \<Rightarrow> string \<Rightarrow> string set \<Rightarrow> nat list \<Rightarrow> int list \<Rightarrow> bool \<Rightarrow> state
   \<Rightarrow> (js_error + int list) \<times> bool \<times> state" where
  "createItems_loop E tableName columns [] newItemIds actionWasPerformed st =
     (Inr newItemIds, actionWasPerformed, st)"
| "createItems_loop E tableName columns (oldItem # items) newItemIds actionWasPerformed st =
     (case createItems_item E columns oldItem st of
        (newItem, st1) \<Rightarrow>
          (case prepare_insert (db st1) tableName (insertClause (deref st1 newItem)) of
             Some e \<Rightarrow> (Inl e, actionWasPerformed, st1)
           | None \<Rightarrow>
              (case run_insert (db st1) tableName (deref st1 newItem) of
                 Inl e \<Rightarrow> (Inl e, True, st1)
               | Inr (rid, d') \<Rightarrow>
                   createItems_loop E tableName columns items (newItemIds @ [rid]) True
                     (st1\<lparr>db := d', trace := trace st1 @ [Ran INSERT tableName]\<rparr>))))"

fun createItems_refetch :: "database \<Rightarrow> string \<Rightarrow> int list \<Rightarrow> row list \<Rightarrow> js_error + row list" where
  "createItems_refetch d tableName [] newItems = Inr newItems"
| "createItems_refetch d tableName (i # ids) newItems =
     (case data (getItem d tableName ''rowid'' (Some i)) of
        None \<Rightarrow> Inl (Error (''No item with id '' @ String_of_int i @ '' in table '' @ [CHR 0x22] @ tableName @ [CHR 0x22]))
      | Some newItem \<Rightarrow> createItems_refetch d tableName ids (newItems @ [newItem]))"

text \<open>
  The \<open>try\<close> block up to its result: what it returns or throws, the two flags, the state.
\<close>

definition createItems_try ::
  "env \<Rightarrow> string \<Rightarrow> nat list \<Rightarrow> state \<Rightarrow> (js_error + row list) \<times> bool \<times> bool \<times> state" where
  "createItems_try E tableName items st =
    (let (currentUndoGroup, st0) = History_getCurrentUndoGroup E st;
         (newUndoGroup, st1) = History_incrementUndoGroup E st0;
         groupWasIncremented = (currentUndoGroup \<noteq> newUndoGroup);
         columns = getColumns (db st1) tableName;
         (r, actionWasPerformed, st2) = createItems_loop E tableName columns items [] False st1
     in ((case r of
            Inl e \<Rightarrow> Inl e
          | Inr newItemIds \<Rightarrow> createItems_refetch (db st2) tableName newItemIds []),
         actionWasPerformed, groupWasIncremented, st2))"

definition createItems ::
  "env \<Rightarrow> string \<Rightarrow> nat list \<Rightarrow> bool \<Rightarrow> state \<Rightarrow> row list DatabaseResponse \<times> state" where
  "createItems E tableName items useNextUndoGroup st =
    (let (r, actionWasPerformed, groupWasIncremented, st2) = createItems_try E tableName items st;
         (output, st3) =
           (case r of
              Inr newItems \<Rightarrow>
                (\<lparr>success = True, error = None, data = newItems\<rparr>,
                 if \<not> useNextUndoGroup \<and> groupWasIncremented \<and> actionWasPerformed
                 then call_decrementLastUndoGroup st2 else st2)
            | Inl e \<Rightarrow>
                (failure e (''Error getting items from '' @ tableName),
                 History_clearMostRecentRedo E (History_performUndo E st2)))
     in (output, if useNextUndoGroup then snd (History_incrementUndoGroup E st3) else st3))"

subsection \<open>updateItems\<close>

definition updateItems_item :: "env \<Rightarrow> string set \<Rightarrow> nat \<Rightarrow> state \<Rightarrow> nat \<times> state" where
  "updateItems_item E columns oldItem st =
    (let (item, st1) = alloc (deref st oldItem) st;
         (updatedAt, st2) = new_Date_toISOString E st1;
         st3 = (if ''updated_at'' \<in> columns
                then assign item ''updated_at'' (Text updatedAt) st2 else st2)
     in (item, st3))"

fun updateItems_loop ::
  "env \<Rightarrow> string \<Rightarrow> string set \<Rightarrow> nat list \<Rightarrow> int option list \<Rightarrow> bool \<Rightarrow> state
   \<Rightarrow> (js_error + int option list) \<times> bool \<times> state" where
  "updateItems_loop E tableName columns [] updateIds actionWasPerformed st =
     (Inr updateIds, actionWasPerformed, st)"
| "updateItems_loop E tableName columns (oldItem # items) updateIds actionWasPerformed st =
     (case updateItems_item E columns oldItem st of
        (updatedItem, st1) \<Rightarrow>
          if ''id'' \<notin> set (Object_keys (deref st1 updatedItem))
          then updateItems_loop E tableName columns items updateIds actionWasPerformed
                 (st1\<lparr>trace := trace st1 @ [Warn ''No id provided for update, skipping item'']\<rparr>)
          else
            (case prepare_update (db st1) tableName
                    (Object_keys (AList.delete ''id'' (deref st1 updatedItem))) of
               Some e \<Rightarrow> (Inl e, actionWasPerformed, st1)
             | None \<Rightarrow>
                (case run_update (db st1) tableName (deref st1 updatedItem) of
                   Inl e \<Rightarrow> (Inl e, actionWasPerformed, st1)
                 | Inr d' \<Rightarrow>
                     updateItems_loop E tableName columns items
                       (updateIds @ [prop_id (deref st1 updatedItem)]) True
                       (st1\<lparr>db := d', trace := trace st1 @ [Ran UPDATE tableName]\<rparr>))))"

text \<open>\<open>updatedItem.error?.message || "No item found"\<close>\<close>

definition error_message_or :: "'a DatabaseResponse \<Rightarrow> string \<Rightarrow> string" where
  "error_message_or r dflt = (case error r of None \<Rightarrow> dflt | Some e \<Rightarrow> or_else (message e) dflt)"

fun updateItems_refetch ::
  "database \<Rightarrow> string \<Rightarrow> int option list \<Rightarrow> row list \<Rightarrow> js_error + row list" where
  "updateItems_refetch d tableName [] updatedItems = Inr updatedItems"
| "updateItems_refetch d tableName (i # ids) updatedItems =
     (case data (getItem d tableName ''rowid'' i) of
        None \<Rightarrow> Inl (Error (error_message_or (getItem d tableName ''rowid'' i) ''No item found''))
      | Some r \<Rightarrow>
          if \<not> success (getItem d tableName ''rowid'' i)
          then Inl (Error (error_message_or (getItem d tableName ''rowid'' i) ''No item found''))
          else updateItems_refetch d tableName ids (updatedItems @ [r]))"

definition updateItems_try ::
  "env \<Rightarrow> string \<Rightarrow> nat list \<Rightarrow> state \<Rightarrow> (js_error + row list) \<times> bool \<times> bool \<times> state" where
  "updateItems_try E tableName items st =
    (let (currentUndoGroup, st0) = History_getCurrentUndoGroup E st;
         (newUndoGroup, st1) = History_incrementUndoGroup E st0;
         groupWasIncremented = (currentUndoGroup \<noteq> newUndoGroup);
         columns = getColumns (db st1) tableName;
         (r, actionWasPerformed, st2) = updateItems_loop E tableName columns items [] False st1
     in ((case r of
            Inl e \<Rightarrow> Inl e
          | Inr updateIds \<Rightarrow> updateItems_refetch (db st2) tableName updateIds []),
         actionWasPerformed, groupWasIncremented, st2))"

text \<open>The ids the pre-validation of \<open>updateItems\<close> does not find.\<close>

definition updateItems_notFoundIds :: "string \<Rightarrow> nat list \<Rightarrow> state \<Rightarrow> int option list" where
  "updateItems_notFoundIds tableName items st =
    filter (\<lambda>i. data (getItem (db st) tableName ''rowid'' i) = None)
      (Set_from (map (\<lambda>item. prop_id (deref st item)) items))"

definition updateItems ::
  "env \<Rightarrow> string \<Rightarrow> nat list \<Rightarrow> bool \<Rightarrow> state \<Rightarrow> row list DatabaseResponse \<times> state" where
  "updateItems E tableName items useNextUndoGroup st =
    (let notFoundIds = updateItems_notFoundIds tableName items st
     in if length notFoundIds > 0
        then (\<lparr>success = False,
               error = Some \<lparr>message = ''No items with ids ['' @ join '', '' (map join_elem notFoundIds) @
                                        ''] in table '' @ [CHR 0x22] @ tableName @ [CHR 0x22],
                             stack = None\<rparr>,
               data = []\<rparr>, st)
        else
          (let (r, actionWasPerformed, groupWasIncremented, st2) = updateItems_try E tableName items st;
               (output, st3) =
                 (case r of
                    Inr updatedItems \<Rightarrow>
                      (\<lparr>success = True, error = None, data = updatedItems\<rparr>,
                       if \<not> useNextUndoGroup \<and> actionWasPerformed \<and> groupWasIncremented
                       then call_decrementLastUndoGroup st2 else st2)
                  | Inl e \<Rightarrow>
                      (failure e (''Error updating items from '' @ tableName),
                       if actionWasPerformed
                       then History_clearMostRecentRedo E (History_performUndo E st2) else st2))
           in (output, if useNextUndoGroup then snd (History_incrementUndoGroup E st3) else st3)))"

subsection \<open>deleteItems\<close>

text \<open>
  \<open>ids\<close> is the \<open>Set\<close> in iteration order. \<open>useNextUndoGroup\<close> has no default here:
  left out it is \<open>undefined\<close>, which every test of it reads as \<open>False\<close>.
\<close>

definition deleteItems_notFoundIds :: "string \<Rightarrow> string \<Rightarrow> int list \<Rightarrow> state \<Rightarrow> int list" where
  "deleteItems_notFoundIds tableName idColumn ids st =
    filter (\<lambda>i. data (getItem (db st) tableName idColumn (Some i)) = None) ids"

definition deleteItems_itemsMap :: "string \<Rightarrow> string \<Rightarrow> int list \<Rightarrow> state \<Rightarrow> (int \<times> row) list" where
  "deleteItems_itemsMap tableName idColumn ids st =
    List.map_filter
      (\<lambda>i. case data (getItem (db st) tableName idColumn (Some i)) of
             None \<Rightarrow> None
           | Some item \<Rightarrow> Some (i, item)) ids"

fun deleteItems_loop ::
  "string \<Rightarrow> string \<Rightarrow> (int \<times> row) list \<Rightarrow> int list \<Rightarrow> row list \<Rightarrow> bool \<Rightarrow> int option \<Rightarrow> state
   \<Rightarrow> (js_error + row list) \<times> bool \<times> int option \<times> state" where
  "deleteItems_loop tableName idColumn itemsMap [] deletedObjects actionWasPerformed currentId st =
     (Inr deletedObjects, actionWasPerformed, currentId, st)"
| "deleteItems_loop tableName idColumn itemsMap (i # ids) deletedObjects actionWasPerformed currentId st =
     (case map_of itemsMap i of
        None \<Rightarrow>
          (Inl (Error (''No item found with '' @ [CHR 0x22] @ idColumn @ [CHR 0x22] @ ''='' @ String_of_int i)),
           actionWasPerformed, Some i, st)
      | Some item \<Rightarrow>
          (case prepare_delete (db st) tableName idColumn of
             Some e \<Rightarrow> (Inl e, actionWasPerformed, Some i, st)
           | None \<Rightarrow>
              (case run_delete (db st) tableName idColumn i of
                 Inl e \<Rightarrow> (Inl e, actionWasPerformed, Some i, st)
               | Inr d' \<Rightarrow>
                   deleteItems_loop tableName idColumn itemsMap ids (deletedObjects @ [item]) True (Some i)
                     (st\<lparr>db := d', trace := trace st @ [Ran DELETE tableName]\<rparr>))))"

definition deleteItems_try ::
  "env \<Rightarrow> string \<Rightarrow> int list \<Rightarrow> string \<Rightarrow> state
   \<Rightarrow> (js_error + row list) \<times> bool \<times> bool \<times> int option \<times> state" where
  "deleteItems_try E tableName ids idColumn st =
    (let itemsMap = deleteItems_itemsMap tableName idColumn ids st;
         (currentUndoGroup, st0) = History_getCurrentUndoGroup E st;
         (newUndoGroup, st1) = History_incrementUndoGroup E st0;
         groupWasIncremented = (currentUndoGroup \<noteq> newUndoGroup);
         st1' = snd (History_incrementUndoGroup E st1);
         (r, actionWasPerformed, currentId, st2) =
           deleteItems_loop tableName idColumn itemsMap ids [] False None st1'
     in (r, actionWasPerformed, groupWasIncremented, currentId, st2))"

definition deleteItems ::
  "env \<Rightarrow> string \<Rightarrow> int list \<Rightarrow> bool \<Rightarrow> string \<Rightarrow> state \<Rightarrow> row list DatabaseResponse \<times> state" where
  "deleteItems E tableName ids useNextUndoGroup idColumn st =
    (let notFoundIds = deleteItems_notFoundIds tableName idColumn ids st
     in if length notFoundIds > 0
        then (\<lparr>success = False,
               error = Some \<lparr>message = ''No items with '' @ idColumn @ ''=['' @
                                        join '', '' (map String_of_int notFoundIds) @
                                        ''] in table '' @ [CHR 0x22] @ tableName @ [CHR 0x22],
                             stack = None\<rparr>,
               data = []\<rparr>, st)
        else
          (let (r, actionWasPerformed, groupWasIncremented, currentId, st2) =
                 deleteItems_try E tableName ids idColumn st;
               (output, st3) =
                 (case r of
                    Inr deletedObjects \<Rightarrow>
                      (\<lparr>success = True, error = None, data = deletedObjects\<rparr>,
                       if \<not> useNextUndoGroup \<and> actionWasPerformed \<and> groupWasIncremented
                       then call_decrementLastUndoGroup st2 else st2)
                  | Inl e \<Rightarrow>
                      (failure e (''Error deleting item '' @ template currentId @
                                  '' while trying to delete items '' @ idColumn @ [CHR 0x22] @
                                  ''=[object Set]''),
                       if actionWasPerformed
                       then History_clearMostRecentRedo E (History_performUndo E st2) else st2))
           in (output, if useNextUndoGroup then snd (History_incrementUndoGroup E st3) else st3)))"

section \<open>The History module, from its description\<close>

text \<open>
  Modelled from the spec: the module \<open>database.history\<close> (\<open>getCurrentUndoGroup\<close>,
  \<open>incrementUndoGroup\<close>, \<open>performUndo\<close>, \<open>clearMostRecentRedo\<close>) is missing from the
  sources. The current group is the largest group value issued so far; \<open>nextGroup\<close> issues
  a value greater by one on every call; undo takes the records of the most recent group out
  of the log and reverses them last to first, leaving what would redo them in a new redo
  slot; discarding the pending redo slot drops the newest one.
\<close>

definition spec_getCurrentUndoGroup :: "database \<Rightarrow> int" where
  "spec_getCurrentUndoGroup d = cur_undo_group d"

text \<open>
  Modelled from the spec: \<open>nextGroup\<close> allocates and returns a group value strictly
  greater than the current one, and every call advances the state.
\<close>

definition spec_incrementUndoGroup :: "database \<Rightarrow> int \<times> database" where
  "spec_incrementUndoGroup d = (cur_undo_group d + 1, d\<lparr>cur_undo_group := cur_undo_group d + 1\<rparr>)"

text \<open>
  Modelled from the spec: reversing one history record against the tables. The result also
  names the change that would redo it, when a row was touched.
\<close>

fun revert :: "change \<Rightarrow> (string \<times> table) list \<Rightarrow> (string \<times> table) list \<times> change list" where
  "revert (Inserted t rid) ts =
     (case map_of ts t of
        None \<Rightarrow> (ts, [])
      | Some T \<Rightarrow>
          (AList.update t (T\<lparr>rows := filter (\<lambda>r. rowid r \<noteq> rid) (rows T)\<rparr>) ts,
           map (\<lambda>r. Deleted t rid (cells r)) (filter (\<lambda>r. rowid r = rid) (rows T))))"
| "revert (Updated t old new prior) ts =
     (case map_of ts t of
        None \<Rightarrow> (ts, [])
      | Some T \<Rightarrow>
          (AList.update t
             (T\<lparr>rows := map (\<lambda>r. if rowid r = new then \<lparr>rowid = old, cells = prior\<rparr> else r) (rows T)\<rparr>) ts,
           map (\<lambda>r. Updated t new old (cells r)) (filter (\<lambda>r. rowid r = new) (rows T))))"
| "revert (Deleted t rid prior) ts =
     (case map_of ts t of
        None \<Rightarrow> (ts, [])
      | Some T \<Rightarrow>
          (AList.update t (T\<lparr>rows := rows T @ [\<lparr>rowid = rid, cells = prior\<rparr>]\<rparr>) ts,
           [Inserted t rid]))"

text \<open>
  Modelled from the spec: reversing the records of one group in the order given, collecting
  the redo slot.
\<close>

fun revert_all ::
  "history_record list \<Rightarrow> (string \<times> table) list \<Rightarrow> history_record list
   \<Rightarrow> (string \<times> table) list \<times> history_record list" where
  "revert_all [] ts slot = (ts, slot)"
| "revert_all (h # hs) ts slot =
     (case revert (change h) ts of
        (ts', cs) \<Rightarrow>
          revert_all hs ts' (slot @ map (\<lambda>c. \<lparr>history_group = history_group h, change = c\<rparr>) cs))"

text \<open>
  Modelled from the spec: undo replays the history records of the most recent group in
  reverse and leaves a redo slot; on an empty log it does nothing.
\<close>

definition spec_performUndo :: "database \<Rightarrow> database" where
  "spec_performUndo d =
    (case sql_max (map history_group (undo_log d)) of
       None \<Rightarrow> d
     | Some g \<Rightarrow>
        (case revert_all (rev (filter (\<lambda>h. history_group h = g) (undo_log d))) (tables d) [] of
           (ts, slot) \<Rightarrow>
             d\<lparr>tables := ts,
               undo_log := filter (\<lambda>h. history_group h \<noteq> g) (undo_log d),
               redo_log := slot # redo_log d\<rparr>))"

text \<open>Modelled from the spec: discarding the pending redo slot drops the newest one.\<close>

definition spec_clearMostRecentRedo :: "database \<Rightarrow> database" where
  "spec_clearMostRecentRedo d = d\<lparr>redo_log := tl (redo_log d)\<rparr>"

text \<open>
  Modelled from the spec: the History module as an environment, together with a clock.
\<close>

definition spec_History :: "(nat \<Rightarrow> string) \<Rightarrow> env" where
  "spec_History clock =
    \<lparr>getCurrentUndoGroup = spec_getCurrentUndoGroup,
     incrementUndoGroup = spec_incrementUndoGroup,
     performUndo = spec_performUndo,
     clearMostRecentRedo = spec_clearMostRecentRedo,
     toISOString = clock\<rparr>"

section \<open>Notions the properties are stated with\<close>

text \<open>Whether a row of the table matches an id: no table, no such column, no id, no row.\<close>

definition has_row :: "database \<Rightarrow> string \<Rightarrow> string \<Rightarrow> int option \<Rightarrow> bool" where
  "has_row d tableName idColumn i =
    (case map_of (tables d) tableName of
       None \<Rightarrow> False
     | Some T \<Rightarrow>
        known_column T idColumn \<and>
        (case i of None \<Rightarrow> False | Some n \<Rightarrow> list_ex (matches idColumn n) (rows T)))"

text \<open>The events of a trace that are writes to a table, and those a write loop may add.\<close>

definition is_write :: "event \<Rightarrow> bool" where
  "is_write ev = (case ev of Ran k t \<Rightarrow> True | _ \<Rightarrow> False)"

definition loop_event :: "event \<Rightarrow> bool" where
  "loop_event ev = (case ev of Ran k t \<Rightarrow> True | Warn w \<Rightarrow> True | _ \<Rightarrow> False)"

text \<open>What a call added to the trace, given the states before and after it.\<close>

definition events_since :: "state \<Rightarrow> state \<Rightarrow> event list" where
  "events_since st st' = drop (length (trace st)) (trace st')"

text \<open>\<open>groupWasIncremented\<close>, as the open-group step of the three operations computes it.\<close>

definition advanced :: "env \<Rightarrow> state \<Rightarrow> bool" where
  "advanced E st = (getCurrentUndoGroup E (db st) \<noteq> fst (incrementUndoGroup E (db st)))"

section \<open>Example stores\<close>

text \<open>
  A table \<open>widgets(name, created_at, updated_at)\<close> holding one row, written in undo
  group 1; a clock whose readings all differ, and one that stands still.
\<close>

definition widgets :: table where
  "widgets = \<lparr>column_names = [''name'', ''created_at'', ''updated_at''],
              rows = [\<lparr>rowid = 1,
                      cells = [(''name'', Text ''a''), (''created_at'', Text ''T0''),
                               (''updated_at'', Text ''T0'')]\<rparr>]\<rparr>"

definition example_db :: database where
  "example_db = \<lparr>tables = [(''widgets'', widgets)],
                 undo_log = [\<lparr>history_group = 1, change = Inserted ''widgets'' 1\<rparr>],
                 redo_log = [], cur_undo_group = 2\<rparr>"

definition example_state :: "obj list \<Rightarrow> state" where
  "example_state objs = \<lparr>db = example_db, heap = objs, ticks = 1, trace = []\<rparr>"

definition ticking_clock :: "nat \<Rightarrow> string" where
  "ticking_clock n = ''T'' @ digits n"

definition still_clock :: "nat \<Rightarrow> string" where
  "still_clock n = ''T0''"

text \<open>
  Compensation in a trace: \<open>performUndo\<close> directly followed by \<open>clearMostRecentRedo\<close>.
\<close>

fun compensated :: "event list \<Rightarrow> bool" where
  "compensated (PerformUndo # ClearMostRecentRedo # evs) = True"
| "compensated (ev # evs) = compensated evs"
| "compensated [] = False"

text \<open>
  What the write statements of one batch do to the undo history: they leave the active group
  alone and append records tagged with it.
\<close>

definition appended :: "database \<Rightarrow> database \<Rightarrow> bool" where
  "appended d d' =
    (cur_undo_group d' = cur_undo_group d \<and>
     take (length (undo_log d)) (undo_log d') = undo_log d \<and>
     list_all (\<lambda>h. history_group h = cur_undo_group d) (drop (length (undo_log d)) (undo_log d')))"


section \<open>Evaluation and basic facts\<close>

lemmas store_simps =
  stmt_get_def stmt_all_def table_info_def known_column_def matches_def bind_error_def
  next_rowid_def named_rowid_def capture_def put_table_def prepare_insert_def run_insert_def
  prepare_update_def run_update_def prepare_delete_def run_delete_def
  SqliteError_def TypeError_def RangeError_def Error_def

lemmas js_simps =
  Object_keys_def prop_id_def or_else_def or_else_opt_def digit_char_def digits.simps
  String_of_int_def template_def join_elem_def Set_from_def deref_def alloc_def assign_def
  new_Date_toISOString_def

lemmas action_simps =
  History_getCurrentUndoGroup_def History_incrementUndoGroup_def History_performUndo_def
  History_clearMostRecentRedo_def failure_def decrementLastUndoGroup_def
  call_decrementLastUndoGroup_def getItem_def getColumns_def getAllItems_def truthy_array_def
  insertClause_def createItems_item_def createItems_try_def createItems_def
  updateItems_item_def error_message_or_def updateItems_try_def updateItems_notFoundIds_def
  updateItems_def deleteItems_notFoundIds_def deleteItems_itemsMap_def deleteItems_try_def
  deleteItems_def List.map_filter_def Let_def

lemmas spec_simps =
  spec_getCurrentUndoGroup_def spec_incrementUndoGroup_def spec_performUndo_def
  spec_clearMostRecentRedo_def spec_History_def

lemmas example_simps =
  has_row_def is_write_def loop_event_def events_since_def advanced_def
  widgets_def example_db_def example_state_def ticking_clock_def still_clock_def

lemma find_None_list_ex: "(find P xs = None) = (\<not> list_ex P xs)"
  by (induction xs) auto

lemma find_Some_list_ex: "find P xs = Some x \<Longrightarrow> list_ex P xs"
  by (induction xs) (auto split: if_splits)

lemma getItem_data_None: "(data (getItem d t c i) = None) = (\<not> has_row d t c i)"
  by (auto simp: getItem_def stmt_get_def has_row_def find_None_list_ex
      dest: find_Some_list_ex split: option.splits sum.splits)

lemma set_Set_from_aux:
  "set (fold (\<lambda>x acc. if x \<in> set acc then acc else acc @ [x]) xs ys) = set xs \<union> set ys"
  by (induction xs arbitrary: ys) auto

lemma set_Set_from: "set (Set_from xs) = set xs"
  by (simp add: Set_from_def set_Set_from_aux)

lemma updateItems_notFoundIds_has_row:
  "updateItems_notFoundIds tableName items st =
     filter (\<lambda>i. \<not> has_row (db st) tableName ''rowid'' i)
       (Set_from (map (\<lambda>item. prop_id (deref st item)) items))"
  by (simp add: updateItems_notFoundIds_def getItem_data_None)

lemma deleteItems_notFoundIds_has_row:
  "deleteItems_notFoundIds tableName idColumn ids st =
     filter (\<lambda>i. \<not> has_row (db st) tableName idColumn (Some i)) ids"
  by (simp add: deleteItems_notFoundIds_def getItem_data_None)

lemma updateItems_rejects:
  assumes "updateItems_notFoundIds tableName items st \<noteq> []"
  shows "updateItems E tableName items useNextUndoGroup st =
        (\<lparr>success = False,
          error = Some \<lparr>message = ''No items with ids ['' @
                          join '', '' (map join_elem (updateItems_notFoundIds tableName items st)) @
                          ''] in table '' @ [CHR 0x22] @ tableName @ [CHR 0x22],
                        stack = None\<rparr>,
          data = []\<rparr>, st)"
  using assms by (simp add: updateItems_def Let_def)

lemma deleteItems_rejects:
  assumes "deleteItems_notFoundIds tableName idColumn ids st \<noteq> []"
  shows "deleteItems E tableName ids useNextUndoGroup idColumn st =
        (\<lparr>success = False,
          error = Some \<lparr>message = ''No items with '' @ idColumn @ ''=['' @
                          join '', '' (map String_of_int (deleteItems_notFoundIds tableName idColumn ids st)) @
                          ''] in table '' @ [CHR 0x22] @ tableName @ [CHR 0x22],
                        stack = None\<rparr>,
          data = []\<rparr>, st)"
  using assms by (simp add: deleteItems_def Let_def)

lemma updateItems_notFoundIds_nonempty:
  "(updateItems_notFoundIds tableName items st \<noteq> []) =
     list_ex (\<lambda>item. \<not> has_row (db st) tableName ''rowid'' (prop_id (deref st item))) items"
  by (auto simp: updateItems_notFoundIds_has_row filter_empty_conv set_Set_from list_ex_iff)

lemma deleteItems_notFoundIds_nonempty:
  "(deleteItems_notFoundIds tableName idColumn ids st \<noteq> []) =
     list_ex (\<lambda>i. \<not> has_row (db st) tableName idColumn (Some i)) ids"
  by (auto simp: deleteItems_notFoundIds_has_row filter_empty_conv list_ex_iff)

section \<open>Pre-validation\<close>

text \<open>
  C1. When some target id of \<open>updateItems\<close> or \<open>deleteItems\<close> has no matching row, the
  call returns at once with \<open>success = False\<close>, the message lists every target id without
  a row (each once, in the order of the batch), and the state is the one the call was given:
  no row is modified, no write statement runs, the undo history is untouched.
\<close>

theorem prevalidation_rejects:
  "(list_ex (\<lambda>item. \<not> has_row (db st) tableName ''rowid'' (prop_id (deref st item))) items \<longrightarrow>
      updateItems E tableName items useNextUndoGroup st =
        (\<lparr>success = False,
          error = Some \<lparr>message = ''No items with ids ['' @
                          join '', '' (map join_elem
                            (filter (\<lambda>i. \<not> has_row (db st) tableName ''rowid'' i)
                               (Set_from (map (\<lambda>item. prop_id (deref st item)) items)))) @
                          ''] in table '' @ [CHR 0x22] @ tableName @ [CHR 0x22],
                        stack = None\<rparr>,
          data = []\<rparr>, st)) \<and>
   (list_ex (\<lambda>i. \<not> has_row (db st) tableName idColumn (Some i)) ids \<longrightarrow>
      deleteItems E tableName ids useNextUndoGroup idColumn st =
        (\<lparr>success = False,
          error = Some \<lparr>message = ''No items with '' @ idColumn @ ''=['' @
                          join '', '' (map String_of_int
                            (filter (\<lambda>i. \<not> has_row (db st) tableName idColumn (Some i)) ids)) @
                          ''] in table '' @ [CHR 0x22] @ tableName @ [CHR 0x22],
                        stack = None\<rparr>,
          data = []\<rparr>, st))"
proof (intro conjI impI)
  assume "list_ex (\<lambda>item. \<not> has_row (db st) tableName ''rowid'' (prop_id (deref st item))) items"
  then have "updateItems_notFoundIds tableName items st \<noteq> []"
    by (simp add: updateItems_notFoundIds_nonempty)
  from updateItems_rejects[OF this, of E useNextUndoGroup]
  show "updateItems E tableName items useNextUndoGroup st =
        (\<lparr>success = False,
          error = Some \<lparr>message = ''No items with ids ['' @
                          join '', '' (map join_elem
                            (filter (\<lambda>i. \<not> has_row (db st) tableName ''rowid'' i)
                               (Set_from (map (\<lambda>item. prop_id (deref st item)) items)))) @
                          ''] in table '' @ [CHR 0x22] @ tableName @ [CHR 0x22],
                        stack = None\<rparr>,
          data = []\<rparr>, st)"
    by (simp add: updateItems_notFoundIds_has_row)
next
  assume "list_ex (\<lambda>i. \<not> has_row (db st) tableName idColumn (Some i)) ids"
  then have "deleteItems_notFoundIds tableName idColumn ids st \<noteq> []"
    by (simp add: deleteItems_notFoundIds_nonempty)
  from deleteItems_rejects[OF this, of E useNextUndoGroup]
  show "deleteItems E tableName ids useNextUndoGroup idColumn st =
        (\<lparr>success = False,
          error = Some \<lparr>message = ''No items with '' @ idColumn @ ''=['' @
                          join '', '' (map String_of_int
                            (filter (\<lambda>i. \<not> has_row (db st) tableName idColumn (Some i)) ids)) @
                          ''] in table '' @ [CHR 0x22] @ tableName @ [CHR 0x22],
                        stack = None\<rparr>,
          data = []\<rparr>, st)"
    by (simp add: deleteItems_notFoundIds_has_row)
qed

text \<open>
  A batch naming the row 1, which exists, and the rows 9999 and 42, which do not (9999
  twice): both operations refuse it, list 9999 and 42, and leave the state alone.
\<close>

theorem prevalidation_rejects_witness:
  "list_ex (\<lambda>item. \<not> has_row (db (example_state
        [[(''id'', Num 1), (''name'', Text ''x'')], [(''id'', Num 9999)], [(''id'', Num 42)],
         [(''id'', Num 9999)]])) ''widgets'' ''rowid''
        (prop_id (deref (example_state
        [[(''id'', Num 1), (''name'', Text ''x'')], [(''id'', Num 9999)], [(''id'', Num 42)],
         [(''id'', Num 9999)]]) item))) [0, 1, 2, 3] \<and>
   updateItems (spec_History ticking_clock) ''widgets'' [0, 1, 2, 3] True (example_state
        [[(''id'', Num 1), (''name'', Text ''x'')], [(''id'', Num 9999)], [(''id'', Num 42)],
         [(''id'', Num 9999)]]) =
     (\<lparr>success = False,
       error = Some \<lparr>message = ''No items with ids [9999, 42] in table '' @ [CHR 0x22] @ ''widgets'' @ [CHR 0x22],
                     stack = None\<rparr>,
       data = []\<rparr>,
      example_state
        [[(''id'', Num 1), (''name'', Text ''x'')], [(''id'', Num 9999)], [(''id'', Num 42)],
         [(''id'', Num 9999)]]) \<and>
   list_ex (\<lambda>i. \<not> has_row (db (example_state [])) ''widgets'' ''rowid'' (Some i)) [1, 9999] \<and>
   deleteItems (spec_History ticking_clock) ''widgets'' [1, 9999] True ''rowid'' (example_state []) =
     (\<lparr>success = False,
       error = Some \<lparr>message = ''No items with rowid=[9999] in table '' @ [CHR 0x22] @ ''widgets'' @ [CHR 0x22],
                     stack = None\<rparr>,
       data = []\<rparr>,
      example_state [])"
proof -
  let ?st = "example_state
        [[(''id'', Num 1), (''name'', Text ''x'')], [(''id'', Num 9999)], [(''id'', Num 42)],
         [(''id'', Num 9999)]]"
  have h1: "list_ex (\<lambda>item. \<not> has_row (db ?st) ''widgets'' ''rowid'' (prop_id (deref ?st item)))
      [0, 1, 2, 3]"
    by (simp add: example_simps js_simps store_simps)
  have h2: "list_ex (\<lambda>i. \<not> has_row (db (example_state [])) ''widgets'' ''rowid'' (Some i)) [1, 9999]"
    by (simp add: example_simps js_simps store_simps)
  have m1: "join '', '' (map join_elem
        (filter (\<lambda>i. \<not> has_row (db ?st) ''widgets'' ''rowid'' i)
           (Set_from (map (\<lambda>item. prop_id (deref ?st item)) [0, 1, 2, 3])))) = ''9999, 42''"
    by (simp add: example_simps js_simps store_simps)
  have m2: "join '', '' (map String_of_int
        (filter (\<lambda>i. \<not> has_row (db (example_state [])) ''widgets'' ''rowid'' (Some i)) [1, 9999])) =
        ''9999''"
    by (simp add: example_simps js_simps store_simps)
  from prevalidation_rejects[of ?st "''widgets''" "[0, 1, 2, 3]" "spec_History ticking_clock" True "''rowid''" "[]"] h1 m1
  have a: "updateItems (spec_History ticking_clock) ''widgets'' [0, 1, 2, 3] True ?st =
     (\<lparr>success = False,
       error = Some \<lparr>message = ''No items with ids [9999, 42] in table '' @ [CHR 0x22] @ ''widgets'' @ [CHR 0x22],
                     stack = None\<rparr>,
       data = []\<rparr>, ?st)"
    by simp
  from prevalidation_rejects[of "example_state []" "''widgets''" "[]" "spec_History ticking_clock" True "''rowid''" "[1, 9999]"] h2 m2
  have b: "deleteItems (spec_History ticking_clock) ''widgets'' [1, 9999] True ''rowid'' (example_state []) =
     (\<lparr>success = False,
       error = Some \<lparr>message = ''No items with rowid=[9999] in table '' @ [CHR 0x22] @ ''widgets'' @ [CHR 0x22],
                     stack = None\<rparr>,
       data = []\<rparr>, example_state [])"
    by simp
  from h1 h2 a b show ?thesis by blast
qed

section \<open>The read operations and the shape of every response\<close>

text \<open>
  C6. \<open>getItem\<close> always returns a response. When the table and the column exist and no
  row matches the id, the response is \<open>success = False\<close> with the message
  \<open>No item with "<idColumn>"=<id> in table "<tableName>"\<close> and no data. When the store
  faults, the response is \<open>success = False\<close> with no data, the message of the fault (a
  fallback text when that message is empty) and its stack (a fallback text when it has none).
\<close>

theorem getItem_reports:
  \<open>(map_of (tables d) tableName = Some T \<and> known_column T idColumn \<and>
      \<not> list_ex (matches idColumn n) (rows T) \<longrightarrow>
      getItem d tableName idColumn (Some n) =
        \<lparr>success = False,
         error = Some \<lparr>message = ''No item with "'' @ idColumn @ ''"='' @ String_of_int n @
                                  '' in table "'' @ tableName @ ''"'',
                       stack = None\<rparr>,
         data = None\<rparr>) \<and>
   (stmt_get d tableName idColumn i = Inl e \<longrightarrow>
      getItem d tableName idColumn i =
        \<lparr>success = False,
         error = Some \<lparr>message = (if message e = []
                                   then ''Error getting item "'' @ idColumn @ ''"='' @ template i
                                   else message e),
                       stack = Some (case stack e of
                                       None \<Rightarrow> ''Unable to get error stack''
                                     | Some s \<Rightarrow> if s = [] then ''Unable to get error stack'' else s)\<rparr>,
         data = None\<rparr>)\<close>
proof (intro conjI impI)
  assume a: "map_of (tables d) tableName = Some T \<and> known_column T idColumn \<and>
      \<not> list_ex (matches idColumn n) (rows T)"
  then have "stmt_get d tableName idColumn (Some n) = Inr None"
    by (simp add: stmt_get_def find_None_list_ex)
  then show \<open>getItem d tableName idColumn (Some n) =
        \<lparr>success = False,
         error = Some \<lparr>message = ''No item with "'' @ idColumn @ ''"='' @ String_of_int n @
                                  '' in table "'' @ tableName @ ''"'',
                       stack = None\<rparr>,
         data = None\<rparr>\<close>
    by (simp add: getItem_def template_def)
next
  assume "stmt_get d tableName idColumn i = Inl e"
  then show \<open>getItem d tableName idColumn i =
        \<lparr>success = False,
         error = Some \<lparr>message = (if message e = []
                                   then ''Error getting item "'' @ idColumn @ ''"='' @ template i
                                   else message e),
                       stack = Some (case stack e of
                                       None \<Rightarrow> ''Unable to get error stack''
                                     | Some s \<Rightarrow> if s = [] then ''Unable to get error stack'' else s)\<rparr>,
         data = None\<rparr>\<close>
    by (simp add: getItem_def or_else_def or_else_opt_def split: option.splits)
qed

text \<open>
  Row 9999 of \<open>widgets\<close> does not exist, and there is no table \<open>gadgets\<close>: the first
  lookup reports the missing row, the second the fault of the store.
\<close>

theorem getItem_reports_witness:
  \<open>map_of (tables example_db) ''widgets'' = Some widgets \<and> known_column widgets ''rowid'' \<and>
   \<not> list_ex (matches ''rowid'' 9999) (rows widgets) \<and>
   getItem example_db ''widgets'' ''rowid'' (Some 9999) =
     \<lparr>success = False,
      error = Some \<lparr>message = ''No item with "rowid"=9999 in table "widgets"'', stack = None\<rparr>,
      data = None\<rparr> \<and>
   stmt_get example_db ''gadgets'' ''rowid'' (Some 1) = Inl (SqliteError ''no such table: gadgets'') \<and>
   getItem example_db ''gadgets'' ''rowid'' (Some 1) =
     \<lparr>success = False,
      error = Some \<lparr>message = ''no such table: gadgets'',
                    stack = Some ''SqliteError: no such table: gadgets''\<rparr>,
      data = None\<rparr>\<close>
proof -
  have h1: "map_of (tables example_db) ''widgets'' = Some widgets \<and> known_column widgets ''rowid'' \<and>
      \<not> list_ex (matches ''rowid'' 9999) (rows widgets)"
    by (simp add: example_simps store_simps)
  have h2: "stmt_get example_db ''gadgets'' ''rowid'' (Some 1) = Inl (SqliteError ''no such table: gadgets'')"
    by (simp add: example_simps store_simps)
  have s: "String_of_int 9999 = ''9999''"
    by (simp add: js_simps)
  from getItem_reports[of example_db "''widgets''" widgets "''rowid''" 9999 "Some 1"
      "SqliteError ''no such table: gadgets''"] h1 s
  have a: \<open>getItem example_db ''widgets'' ''rowid'' (Some 9999) =
     \<lparr>success = False,
      error = Some \<lparr>message = ''No item with "rowid"=9999 in table "widgets"'', stack = None\<rparr>,
      data = None\<rparr>\<close>
    by simp
  from getItem_reports[of example_db "''gadgets''" widgets "''rowid''" 9999 "Some 1"
      "SqliteError ''no such table: gadgets''"] h2
  have b: \<open>getItem example_db ''gadgets'' ''rowid'' (Some 1) =
     \<lparr>success = False,
      error = Some \<lparr>message = ''no such table: gadgets'',
                    stack = Some ''SqliteError: no such table: gadgets''\<rparr>,
      data = None\<rparr>\<close>
    by (simp add: SqliteError_def)
  from h1 h2 a b show ?thesis by blast
qed

text \<open>
  C5. In every response of \<open>getItem\<close>, \<open>getAllItems\<close>, \<open>createItems\<close>,
  \<open>updateItems\<close> and \<open>deleteItems\<close>: \<open>success = True\<close> comes with no error, and
  \<open>success = False\<close> comes with the neutral data: no row for \<open>getItem\<close>, the empty array
  for the others.
\<close>

theorem response_invariant:
  "(success (getItem d t c i) \<longrightarrow> error (getItem d t c i) = None) \<and>
   (\<not> success (getItem d t c i) \<longrightarrow> data (getItem d t c i) = None) \<and>
   (success (getAllItems d t) \<longrightarrow> error (getAllItems d t) = None) \<and>
   (\<not> success (getAllItems d t) \<longrightarrow> data (getAllItems d t) = []) \<and>
   (success (fst (createItems E t items u st)) \<longrightarrow> error (fst (createItems E t items u st)) = None) \<and>
   (\<not> success (fst (createItems E t items u st)) \<longrightarrow> data (fst (createItems E t items u st)) = []) \<and>
   (success (fst (updateItems E t items u st)) \<longrightarrow> error (fst (updateItems E t items u st)) = None) \<and>
   (\<not> success (fst (updateItems E t items u st)) \<longrightarrow> data (fst (updateItems E t items u st)) = []) \<and>
   (success (fst (deleteItems E t ids u c st)) \<longrightarrow> error (fst (deleteItems E t ids u c st)) = None) \<and>
   (\<not> success (fst (deleteItems E t ids u c st)) \<longrightarrow> data (fst (deleteItems E t ids u c st)) = [])"
proof -
  have g: "(success (getItem d t c i) \<longrightarrow> error (getItem d t c i) = None) \<and>
   (\<not> success (getItem d t c i) \<longrightarrow> data (getItem d t c i) = None)"
    by (simp add: getItem_def split: sum.splits option.splits)
  have a: "(success (getAllItems d t) \<longrightarrow> error (getAllItems d t) = None) \<and>
   (\<not> success (getAllItems d t) \<longrightarrow> data (getAllItems d t) = [])"
    by (simp add: getAllItems_def failure_def truthy_array_def split: sum.splits)
  have c: "(success (fst (createItems E t items u st)) \<longrightarrow> error (fst (createItems E t items u st)) = None) \<and>
   (\<not> success (fst (createItems E t items u st)) \<longrightarrow> data (fst (createItems E t items u st)) = [])"
    by (simp add: createItems_def failure_def Let_def split: prod.splits sum.splits)
  have u: "(success (fst (updateItems E t items u st)) \<longrightarrow> error (fst (updateItems E t items u st)) = None) \<and>
   (\<not> success (fst (updateItems E t items u st)) \<longrightarrow> data (fst (updateItems E t items u st)) = [])"
    by (simp add: updateItems_def failure_def Let_def split: prod.splits sum.splits)
  have dl: "(success (fst (deleteItems E t ids u c st)) \<longrightarrow> error (fst (deleteItems E t ids u c st)) = None) \<and>
   (\<not> success (fst (deleteItems E t ids u c st)) \<longrightarrow> data (fst (deleteItems E t ids u c st)) = [])"
    by (simp add: deleteItems_def failure_def Let_def split: prod.splits sum.splits)
  from g a c u dl show ?thesis by blast
qed

text \<open>
  On \<open>widgets\<close> the five operations succeed, and their responses carry no error; on the
  missing table \<open>gadgets\<close> all five fail, and their responses carry no data.
\<close>

theorem response_invariant_witness:
  "success (getItem example_db ''widgets'' ''rowid'' (Some 1)) \<and>
   error (getItem example_db ''widgets'' ''rowid'' (Some 1)) = None \<and>
   success (getAllItems example_db ''widgets'') \<and>
   error (getAllItems example_db ''widgets'') = None \<and>
   success (fst (createItems (spec_History ticking_clock) ''widgets'' [0] True
     (example_state [[(''id'', Num 1), (''name'', Text ''x'')]]))) \<and>
   error (fst (createItems (spec_History ticking_clock) ''widgets'' [0] True
     (example_state [[(''id'', Num 1), (''name'', Text ''x'')]]))) = None \<and>
   success (fst (updateItems (spec_History ticking_clock) ''widgets'' [0] True
     (example_state [[(''id'', Num 1), (''name'', Text ''x'')]]))) \<and>
   error (fst (updateItems (spec_History ticking_clock) ''widgets'' [0] True
     (example_state [[(''id'', Num 1), (''name'', Text ''x'')]]))) = None \<and>
   success (fst (deleteItems (spec_History ticking_clock) ''widgets'' [1] True ''rowid''
     (example_state [[(''id'', Num 1), (''name'', Text ''x'')]]))) \<and>
   error (fst (deleteItems (spec_History ticking_clock) ''widgets'' [1] True ''rowid''
     (example_state [[(''id'', Num 1), (''name'', Text ''x'')]]))) = None \<and>
   \<not> success (getItem example_db ''gadgets'' ''rowid'' (Some 1)) \<and>
   data (getItem example_db ''gadgets'' ''rowid'' (Some 1)) = None \<and>
   \<not> success (getAllItems example_db ''gadgets'') \<and>
   data (getAllItems example_db ''gadgets'') = [] \<and>
   \<not> success (fst (createItems (spec_History ticking_clock) ''gadgets'' [0] True
     (example_state [[(''id'', Num 1), (''name'', Text ''x'')]]))) \<and>
   data (fst (createItems (spec_History ticking_clock) ''gadgets'' [0] True
     (example_state [[(''id'', Num 1), (''name'', Text ''x'')]]))) = [] \<and>
   \<not> success (fst (updateItems (spec_History ticking_clock) ''gadgets'' [0] True
     (example_state [[(''id'', Num 1), (''name'', Text ''x'')]]))) \<and>
   data (fst (updateItems (spec_History ticking_clock) ''gadgets'' [0] True
     (example_state [[(''id'', Num 1), (''name'', Text ''x'')]]))) = [] \<and>
   \<not> success (fst (deleteItems (spec_History ticking_clock) ''gadgets'' [1] True ''rowid''
     (example_state [[(''id'', Num 1), (''name'', Text ''x'')]]))) \<and>
   data (fst (deleteItems (spec_History ticking_clock) ''gadgets'' [1] True ''rowid''
     (example_state [[(''id'', Num 1), (''name'', Text ''x'')]]))) = []"
proof -
  let ?E = "spec_History ticking_clock"
  let ?st = "example_state [[(''id'', Num 1), (''name'', Text ''x'')]]"
  have s1: "success (getItem example_db ''widgets'' ''rowid'' (Some 1))"
    by (simp add: example_simps store_simps getItem_def)
  have s2: "success (getAllItems example_db ''widgets'')"
    by (simp add: example_simps store_simps getAllItems_def truthy_array_def)
  have s3: "success (fst (createItems ?E ''widgets'' [0] True ?st))"
    by (simp add: example_simps store_simps js_simps action_simps spec_simps del: set_map)
  have s4: "success (fst (updateItems ?E ''widgets'' [0] True ?st))"
    by (simp add: example_simps store_simps js_simps action_simps spec_simps del: set_map)
  have s5: "success (fst (deleteItems ?E ''widgets'' [1] True ''rowid'' ?st))"
    by (simp add: example_simps store_simps js_simps action_simps spec_simps del: set_map)
  have f1: "\<not> success (getItem example_db ''gadgets'' ''rowid'' (Some 1))"
    by (simp add: example_simps store_simps getItem_def)
  have f2: "\<not> success (getAllItems example_db ''gadgets'')"
    by (simp add: example_simps store_simps getAllItems_def failure_def)
  have f3: "\<not> success (fst (createItems ?E ''gadgets'' [0] True ?st))"
    by (simp add: example_simps store_simps js_simps action_simps spec_simps del: set_map)
  have f4: "\<not> success (fst (updateItems ?E ''gadgets'' [0] True ?st))"
    by (simp add: example_simps store_simps js_simps action_simps spec_simps del: set_map)
  have f5: "\<not> success (fst (deleteItems ?E ''gadgets'' [1] True ''rowid'' ?st))"
    by (simp add: example_simps store_simps js_simps action_simps spec_simps del: set_map)
  from response_invariant[of example_db "''widgets''" "''rowid''" "Some 1" ?E "[0]" True ?st "[1]"]
    s1 s2 s3 s4 s5
  have ok: "error (getItem example_db ''widgets'' ''rowid'' (Some 1)) = None \<and>
      error (getAllItems example_db ''widgets'') = None \<and>
      error (fst (createItems ?E ''widgets'' [0] True ?st)) = None \<and>
      error (fst (updateItems ?E ''widgets'' [0] True ?st)) = None \<and>
      error (fst (deleteItems ?E ''widgets'' [1] True ''rowid'' ?st)) = None"
    by blast
  from response_invariant[of example_db "''gadgets''" "''rowid''" "Some 1" ?E "[0]" True ?st "[1]"]
    f1 f2 f3 f4 f5
  have ko: "data (getItem example_db ''gadgets'' ''rowid'' (Some 1)) = None \<and>
      data (getAllItems example_db ''gadgets'') = [] \<and>
      data (fst (createItems ?E ''gadgets'' [0] True ?st)) = [] \<and>
      data (fst (updateItems ?E ''gadgets'' [0] True ?st)) = [] \<and>
      data (fst (deleteItems ?E ''gadgets'' [1] True ''rowid'' ?st)) = []"
    by blast
  from s1 s2 s3 s4 s5 f1 f2 f3 f4 f5 ok ko show ?thesis by blast
qed

section \<open>What the write loops do to the heap and to the trace\<close>

lemma createItems_item_frame:
  assumes "createItems_item E cols a st = (b, st')"
  shows "db st' = db st" and "trace st' = trace st"
    and "\<exists>ext. heap st' = heap st @ ext"
  using assms
  by (auto simp: createItems_item_def alloc_def assign_def new_Date_toISOString_def Let_def
      list_update_append split: if_splits)

lemma updateItems_item_frame:
  assumes "updateItems_item E cols a st = (b, st')"
  shows "db st' = db st" and "trace st' = trace st"
    and "\<exists>ext. heap st' = heap st @ ext"
  using assms
  by (auto simp: updateItems_item_def alloc_def assign_def new_Date_toISOString_def Let_def
      list_update_append split: if_splits)

lemma createItems_loop_effect:
  "createItems_loop E t cols items ids p st = (r, p', st') \<Longrightarrow>
     (\<exists>ext. heap st' = heap st @ ext) \<and>
     (\<exists>evs. trace st' = trace st @ evs \<and> list_all loop_event evs \<and>
        (isl r \<or> p' = (p \<or> list_ex is_write evs)))"
proof (induction items arbitrary: ids p st)
  case Nil
  then show ?case by auto
next
  case (Cons a items)
  obtain b st1 where it: "createItems_item E cols a st = (b, st1)"
    by (cases "createItems_item E cols a st")
  from createItems_item_frame[OF it] obtain e1 where
    fr: "heap st1 = heap st @ e1" "trace st1 = trace st" by auto
  show ?case
  proof (cases "prepare_insert (db st1) t (insertClause (deref st1 b))")
    case (Some e)
    with Cons.prems it fr show ?thesis by auto
  next
    case None
    show ?thesis
    proof (cases "run_insert (db st1) t (deref st1 b)")
      case (Inl e)
      with Cons.prems it fr None show ?thesis by auto
    next
      case (Inr x)
      obtain rid d' where x: "x = (rid, d')" by (cases x)
      let ?st2 = "st1\<lparr>db := d', trace := trace st1 @ [Ran INSERT t]\<rparr>"
      from Cons.prems it None Inr x
      have "createItems_loop E t cols items (ids @ [rid]) True ?st2 = (r, p', st')" by simp
      from Cons.IH[OF this] obtain e2 evs where
        ih: "heap st' = heap st1 @ e2" "trace st' = trace st1 @ [Ran INSERT t] @ evs"
          "list_all loop_event evs" "isl r \<or> p' = (True \<or> list_ex is_write evs)"
        by auto
      from ih(1) fr(1) have h: "\<exists>ext. heap st' = heap st @ ext" by simp
      from ih(2,3,4) fr(2)
      have "trace st' = trace st @ (Ran INSERT t # evs) \<and> list_all loop_event (Ran INSERT t # evs) \<and>
          (isl r \<or> p' = (p \<or> list_ex is_write (Ran INSERT t # evs)))"
        by (simp add: loop_event_def is_write_def)
      with h show ?thesis by blast
    qed
  qed
qed

lemma updateItems_loop_effect:
  "updateItems_loop E t cols items ids p st = (r, p', st') \<Longrightarrow>
     (\<exists>ext. heap st' = heap st @ ext) \<and>
     (\<exists>evs. trace st' = trace st @ evs \<and> list_all loop_event evs \<and>
        p' = (p \<or> list_ex is_write evs))"
proof (induction items arbitrary: ids p st)
  case Nil
  then show ?case by auto
next
  case (Cons a items)
  obtain b st1 where it: "updateItems_item E cols a st = (b, st1)"
    by (cases "updateItems_item E cols a st")
  from updateItems_item_frame[OF it] obtain e1 where
    fr: "heap st1 = heap st @ e1" "trace st1 = trace st" by auto
  show ?case
  proof (cases "''id'' \<notin> set (Object_keys (deref st1 b))")
    case True
    let ?w = "Warn ''No id provided for update, skipping item''"
    let ?st2 = "st1\<lparr>trace := trace st1 @ [?w]\<rparr>"
    from Cons.prems it True
    have "updateItems_loop E t cols items ids p ?st2 = (r, p', st')" by simp
    from Cons.IH[OF this] obtain e2 evs where
      ih: "heap st' = heap st1 @ e2" "trace st' = trace st1 @ [?w] @ evs"
        "list_all loop_event evs" "p' = (p \<or> list_ex is_write evs)"
      by auto
    from ih(1) fr(1) have h: "\<exists>ext. heap st' = heap st @ ext" by simp
    from ih(2,3,4) fr(2)
    have "trace st' = trace st @ (?w # evs) \<and> list_all loop_event (?w # evs) \<and>
        p' = (p \<or> list_ex is_write (?w # evs))"
      by (simp add: loop_event_def is_write_def)
    with h show ?thesis by blast
  next
    case False
    note hasid = this
    show ?thesis
    proof (cases "prepare_update (db st1) t (Object_keys (AList.delete ''id'' (deref st1 b)))")
      case (Some e)
      with Cons.prems it fr hasid show ?thesis by auto
    next
      case None
      show ?thesis
      proof (cases "run_update (db st1) t (deref st1 b)")
        case (Inl e)
        with Cons.prems it fr None hasid show ?thesis by auto
      next
        case (Inr d')
        let ?st2 = "st1\<lparr>db := d', trace := trace st1 @ [Ran UPDATE t]\<rparr>"
        from Cons.prems it None Inr hasid
        have "updateItems_loop E t cols items (ids @ [prop_id (deref st1 b)]) True ?st2 = (r, p', st')"
          by simp
        from Cons.IH[OF this] obtain e2 evs where
          ih: "heap st' = heap st1 @ e2" "trace st' = trace st1 @ [Ran UPDATE t] @ evs"
            "list_all loop_event evs" "p' = (True \<or> list_ex is_write evs)"
          by auto
        from ih(1) fr(1) have h: "\<exists>ext. heap st' = heap st @ ext" by simp
        from ih(2,3,4) fr(2)
        have "trace st' = trace st @ (Ran UPDATE t # evs) \<and> list_all loop_event (Ran UPDATE t # evs) \<and>
            p' = (p \<or> list_ex is_write (Ran UPDATE t # evs))"
          by (simp add: loop_event_def is_write_def)
        with h show ?thesis by blast
      qed
    qed
  qed
qed

lemma deleteItems_loop_effect:
  "deleteItems_loop t c m ids acc p cur st = (r, p', cur', st') \<Longrightarrow>
     heap st' = heap st \<and>
     (\<exists>evs. trace st' = trace st @ evs \<and> list_all loop_event evs \<and>
        p' = (p \<or> list_ex is_write evs))"
proof (induction ids arbitrary: acc p cur st)
  case Nil
  then show ?case by auto
next
  case (Cons i ids)
  show ?case
  proof (cases "map_of m i")
    case None
    with Cons.prems show ?thesis by auto
  next
    case (Some item)
    note found = this
    show ?thesis
    proof (cases "prepare_delete (db st) t c")
      case (Some e)
      with Cons.prems found show ?thesis by auto
    next
      case None
      show ?thesis
      proof (cases "run_delete (db st) t c i")
        case (Inl e)
        with Cons.prems found None show ?thesis by auto
      next
        case (Inr d')
        let ?st2 = "st\<lparr>db := d', trace := trace st @ [Ran DELETE t]\<rparr>"
        from Cons.prems found None Inr
        have "deleteItems_loop t c m ids (acc @ [item]) True (Some i) ?st2 = (r, p', cur', st')"
          by simp
        from Cons.IH[OF this] obtain evs where
          ih: "heap st' = heap st" "trace st' = trace st @ [Ran DELETE t] @ evs"
            "list_all loop_event evs" "p' = (True \<or> list_ex is_write evs)"
          by auto
        from ih(2,3,4)
        have "trace st' = trace st @ (Ran DELETE t # evs) \<and> list_all loop_event (Ran DELETE t # evs) \<and>
            p' = (p \<or> list_ex is_write (Ran DELETE t # evs))"
          by (simp add: loop_event_def is_write_def)
        with ih(1) show ?thesis by blast
      qed
    qed
  qed
qed

section \<open>The shape of a whole call\<close>

text \<open>
  The state in which the write loop of \<open>createItems\<close> and \<open>updateItems\<close> starts: the
  group has been read and opened.
\<close>

lemma opened_state:
  "heap (snd (History_incrementUndoGroup E (snd (History_getCurrentUndoGroup E st)))) = heap st"
  "trace (snd (History_incrementUndoGroup E (snd (History_getCurrentUndoGroup E st)))) =
     trace st @ [GetCurrentUndoGroup, IncrementUndoGroup]"
  "db (snd (History_incrementUndoGroup E (snd (History_getCurrentUndoGroup E st)))) =
     snd (incrementUndoGroup E (db st))"
  "ticks (snd (History_incrementUndoGroup E (snd (History_getCurrentUndoGroup E st)))) = ticks st"
  by (simp_all add: History_incrementUndoGroup_def History_getCurrentUndoGroup_def)

lemma createItems_try_unfold:
  assumes "createItems_loop E t
      (getColumns (db (snd (History_incrementUndoGroup E (snd (History_getCurrentUndoGroup E st))))) t)
      items [] False
      (snd (History_incrementUndoGroup E (snd (History_getCurrentUndoGroup E st)))) = (r, p, st2)"
  shows "createItems_try E t items st =
     ((case r of Inl e \<Rightarrow> Inl e | Inr newItemIds \<Rightarrow> createItems_refetch (db st2) t newItemIds []),
      p, advanced E st, st2)"
  using assms
  by (simp add: createItems_try_def History_incrementUndoGroup_def History_getCurrentUndoGroup_def
      advanced_def Let_def)

lemma createItems_shape:
  "\<exists>evs ext. list_all loop_event evs \<and>
     heap (snd (createItems E t items u st)) = heap st @ ext \<and>
     trace (snd (createItems E t items u st)) =
       trace st @ [GetCurrentUndoGroup, IncrementUndoGroup] @ evs @
       (if success (fst (createItems E t items u st))
        then (if \<not> u \<and> advanced E st \<and> list_ex is_write evs then [DecrementLastUndoGroup] else [])
        else [PerformUndo, ClearMostRecentRedo]) @
       (if u then [IncrementUndoGroup] else [])"
proof -
  let ?st1 = "snd (History_incrementUndoGroup E (snd (History_getCurrentUndoGroup E st)))"
  obtain r p st2 where L: "createItems_loop E t (getColumns (db ?st1) t) items [] False ?st1 = (r, p, st2)"
    by (metis prod_cases3)
  from createItems_loop_effect[OF L] obtain ext evs where
    eff: "heap st2 = heap st @ ext" "trace st2 = trace st @ [GetCurrentUndoGroup, IncrementUndoGroup] @ evs"
      "list_all loop_event evs" "isl r \<or> p = list_ex is_write evs"
    by (auto simp: opened_state)
  note T = createItems_try_unfold[OF L]
  let ?res = "case r of Inl e \<Rightarrow> Inl e | Inr newItemIds \<Rightarrow> createItems_refetch (db st2) t newItemIds []"
  show ?thesis
  proof (cases ?res)
    case (Inl e)
    with T eff have
      "heap (snd (createItems E t items u st)) = heap st @ ext \<and>
       trace (snd (createItems E t items u st)) =
         trace st @ [GetCurrentUndoGroup, IncrementUndoGroup] @ evs @
         (if success (fst (createItems E t items u st))
          then (if \<not> u \<and> advanced E st \<and> list_ex is_write evs then [DecrementLastUndoGroup] else [])
          else [PerformUndo, ClearMostRecentRedo]) @
         (if u then [IncrementUndoGroup] else [])"
      by (simp add: createItems_def failure_def History_performUndo_def
          History_clearMostRecentRedo_def History_incrementUndoGroup_def)
    with eff(3) show ?thesis by blast
  next
    case (Inr newItems)
    then have "\<not> isl r" by (cases r) auto
    with eff(4) have p: "p = list_ex is_write evs" by simp
    from Inr T eff p have
      "heap (snd (createItems E t items u st)) = heap st @ ext \<and>
       trace (snd (createItems E t items u st)) =
         trace st @ [GetCurrentUndoGroup, IncrementUndoGroup] @ evs @
         (if success (fst (createItems E t items u st))
          then (if \<not> u \<and> advanced E st \<and> list_ex is_write evs then [DecrementLastUndoGroup] else [])
          else [PerformUndo, ClearMostRecentRedo]) @
         (if u then [IncrementUndoGroup] else [])"
      by (simp add: createItems_def call_decrementLastUndoGroup_def History_incrementUndoGroup_def)
    with eff(3) show ?thesis by blast
  qed
qed

lemma updateItems_try_unfold:
  assumes "updateItems_loop E t
      (getColumns (db (snd (History_incrementUndoGroup E (snd (History_getCurrentUndoGroup E st))))) t)
      items [] False
      (snd (History_incrementUndoGroup E (snd (History_getCurrentUndoGroup E st)))) = (r, p, st2)"
  shows "updateItems_try E t items st =
     ((case r of Inl e \<Rightarrow> Inl e | Inr updateIds \<Rightarrow> updateItems_refetch (db st2) t updateIds []),
      p, advanced E st, st2)"
  using assms
  by (simp add: updateItems_try_def History_incrementUndoGroup_def History_getCurrentUndoGroup_def
      advanced_def Let_def)

lemma updateItems_shape:
  assumes "updateItems_notFoundIds t items st = []"
  shows "\<exists>evs ext. list_all loop_event evs \<and>
     heap (snd (updateItems E t items u st)) = heap st @ ext \<and>
     trace (snd (updateItems E t items u st)) =
       trace st @ [GetCurrentUndoGroup, IncrementUndoGroup] @ evs @
       (if success (fst (updateItems E t items u st))
        then (if \<not> u \<and> advanced E st \<and> list_ex is_write evs then [DecrementLastUndoGroup] else [])
        else (if list_ex is_write evs then [PerformUndo, ClearMostRecentRedo] else [])) @
       (if u then [IncrementUndoGroup] else [])"
proof -
  let ?st1 = "snd (History_incrementUndoGroup E (snd (History_getCurrentUndoGroup E st)))"
  obtain r p st2 where L: "updateItems_loop E t (getColumns (db ?st1) t) items [] False ?st1 = (r, p, st2)"
    by (metis prod_cases3)
  from updateItems_loop_effect[OF L] obtain ext evs where
    eff: "heap st2 = heap st @ ext" "trace st2 = trace st @ [GetCurrentUndoGroup, IncrementUndoGroup] @ evs"
      "list_all loop_event evs" "p = list_ex is_write evs"
    by (auto simp: opened_state)
  note T = updateItems_try_unfold[OF L]
  let ?res = "case r of Inl e \<Rightarrow> Inl e | Inr updateIds \<Rightarrow> updateItems_refetch (db st2) t updateIds []"
  show ?thesis
  proof (cases ?res)
    case (Inl e)
    with T eff assms have
      "heap (snd (updateItems E t items u st)) = heap st @ ext \<and>
       trace (snd (updateItems E t items u st)) =
         trace st @ [GetCurrentUndoGroup, IncrementUndoGroup] @ evs @
         (if success (fst (updateItems E t items u st))
          then (if \<not> u \<and> advanced E st \<and> list_ex is_write evs then [DecrementLastUndoGroup] else [])
          else (if list_ex is_write evs then [PerformUndo, ClearMostRecentRedo] else [])) @
         (if u then [IncrementUndoGroup] else [])"
      by (simp add: updateItems_def failure_def History_performUndo_def
          History_clearMostRecentRedo_def History_incrementUndoGroup_def)
    with eff(3) show ?thesis by blast
  next
    case (Inr updatedItems)
    with T eff assms have
      "heap (snd (updateItems E t items u st)) = heap st @ ext \<and>
       trace (snd (updateItems E t items u st)) =
         trace st @ [GetCurrentUndoGroup, IncrementUndoGroup] @ evs @
         (if success (fst (updateItems E t items u st))
          then (if \<not> u \<and> advanced E st \<and> list_ex is_write evs then [DecrementLastUndoGroup] else [])
          else (if list_ex is_write evs then [PerformUndo, ClearMostRecentRedo] else [])) @
         (if u then [IncrementUndoGroup] else [])"
      by (auto simp: updateItems_def call_decrementLastUndoGroup_def History_incrementUndoGroup_def)
    with eff(3) show ?thesis by blast
  qed
qed

lemma opened_twice_state:
  "heap (snd (History_incrementUndoGroup E (snd (History_incrementUndoGroup E
      (snd (History_getCurrentUndoGroup E st)))))) = heap st"
  "trace (snd (History_incrementUndoGroup E (snd (History_incrementUndoGroup E
      (snd (History_getCurrentUndoGroup E st)))))) =
     trace st @ [GetCurrentUndoGroup, IncrementUndoGroup, IncrementUndoGroup]"
  by (simp_all add: History_incrementUndoGroup_def History_getCurrentUndoGroup_def)

lemma deleteItems_try_unfold:
  assumes "deleteItems_loop t c (deleteItems_itemsMap t c ids st) ids [] False None
      (snd (History_incrementUndoGroup E (snd (History_incrementUndoGroup E
        (snd (History_getCurrentUndoGroup E st)))))) = (r, p, cur, st2)"
  shows "deleteItems_try E t ids c st = (r, p, advanced E st, cur, st2)"
  using assms
  by (simp add: deleteItems_try_def History_incrementUndoGroup_def History_getCurrentUndoGroup_def
      advanced_def Let_def)

lemma deleteItems_shape:
  assumes "deleteItems_notFoundIds t c ids st = []"
  shows "\<exists>evs. list_all loop_event evs \<and>
     heap (snd (deleteItems E t ids u c st)) = heap st \<and>
     trace (snd (deleteItems E t ids u c st)) =
       trace st @ [GetCurrentUndoGroup, IncrementUndoGroup, IncrementUndoGroup] @ evs @
       (if success (fst (deleteItems E t ids u c st))
        then (if \<not> u \<and> advanced E st \<and> list_ex is_write evs then [DecrementLastUndoGroup] else [])
        else (if list_ex is_write evs then [PerformUndo, ClearMostRecentRedo] else [])) @
       (if u then [IncrementUndoGroup] else [])"
proof -
  let ?st1 = "snd (History_incrementUndoGroup E (snd (History_incrementUndoGroup E
      (snd (History_getCurrentUndoGroup E st)))))"
  obtain r p cur st2 where
    L: "deleteItems_loop t c (deleteItems_itemsMap t c ids st) ids [] False None ?st1 = (r, p, cur, st2)"
    by (metis prod_cases4)
  from deleteItems_loop_effect[OF L] obtain evs where
    eff: "heap st2 = heap st"
      "trace st2 = trace st @ [GetCurrentUndoGroup, IncrementUndoGroup, IncrementUndoGroup] @ evs"
      "list_all loop_event evs" "p = list_ex is_write evs"
    by (auto simp: opened_twice_state)
  note T = deleteItems_try_unfold[OF L]
  show ?thesis
  proof (cases r)
    case (Inl e)
    with T eff assms have
      "heap (snd (deleteItems E t ids u c st)) = heap st \<and>
       trace (snd (deleteItems E t ids u c st)) =
         trace st @ [GetCurrentUndoGroup, IncrementUndoGroup, IncrementUndoGroup] @ evs @
         (if success (fst (deleteItems E t ids u c st))
          then (if \<not> u \<and> advanced E st \<and> list_ex is_write evs then [DecrementLastUndoGroup] else [])
          else (if list_ex is_write evs then [PerformUndo, ClearMostRecentRedo] else [])) @
         (if u then [IncrementUndoGroup] else [])"
      by (simp add: deleteItems_def failure_def History_performUndo_def
          History_clearMostRecentRedo_def History_incrementUndoGroup_def)
    with eff(3) show ?thesis by blast
  next
    case (Inr deletedObjects)
    with T eff assms have
      "heap (snd (deleteItems E t ids u c st)) = heap st \<and>
       trace (snd (deleteItems E t ids u c st)) =
         trace st @ [GetCurrentUndoGroup, IncrementUndoGroup, IncrementUndoGroup] @ evs @
         (if success (fst (deleteItems E t ids u c st))
          then (if \<not> u \<and> advanced E st \<and> list_ex is_write evs then [DecrementLastUndoGroup] else [])
          else (if list_ex is_write evs then [PerformUndo, ClearMostRecentRedo] else [])) @
         (if u then [IncrementUndoGroup] else [])"
      by (auto simp: deleteItems_def call_decrementLastUndoGroup_def History_incrementUndoGroup_def)
    with eff(3) show ?thesis by blast
  qed
qed

section \<open>Facts about traces\<close>

lemma loop_events_no_history:
  assumes "list_all loop_event evs"
  shows "IncrementUndoGroup \<notin> set evs" and "PerformUndo \<notin> set evs"
    and "ClearMostRecentRedo \<notin> set evs" and "DecrementLastUndoGroup \<notin> set evs"
    and "GetCurrentUndoGroup \<notin> set evs"
  using assms by (auto simp: list_all_iff loop_event_def)

lemma events_since_append [simp]: "trace st' = trace st @ evs \<Longrightarrow> events_since st st' = evs"
  by (simp add: events_since_def)

lemma events_since_same [simp]: "events_since st st = []"
  by (simp add: events_since_def)

lemma compensated_member: "compensated evs \<Longrightarrow> PerformUndo \<in> set evs"
  by (induction evs rule: compensated.induct) auto

lemma compensated_append_right: "compensated evs \<Longrightarrow> compensated (evs @ post)"
  by (induction evs rule: compensated.induct) auto


lemma is_write_history [simp]:
  "\<not> is_write GetCurrentUndoGroup" "\<not> is_write IncrementUndoGroup" "\<not> is_write PerformUndo"
  "\<not> is_write ClearMostRecentRedo" "\<not> is_write DecrementLastUndoGroup"
  by (simp_all add: is_write_def)

lemma list_all_has_row_update:
  "(updateItems_notFoundIds t items st = []) =
     list_all (\<lambda>item. has_row (db st) t ''rowid'' (prop_id (deref st item))) items"
  using updateItems_notFoundIds_nonempty[of t items st]
  by (auto simp: list_all_iff list_ex_iff)

lemma list_all_has_row_delete:
  "(deleteItems_notFoundIds t c ids st = []) =
     list_all (\<lambda>i. has_row (db st) t c (Some i)) ids"
  using deleteItems_notFoundIds_nonempty[of t c ids st]
  by (auto simp: list_all_iff list_ex_iff)

section \<open>The caller's objects\<close>

text \<open>
  C10. \<open>createItems\<close> and \<open>updateItems\<close> leave every object that existed before the call
  as it was: the heap after the call is the heap before it, followed by the objects the call
  created. So each item the caller passed holds the properties it held before.
\<close>

theorem arguments_not_mutated:
  "take (length (heap st)) (heap (snd (createItems E t items u st))) = heap st \<and>
   take (length (heap st)) (heap (snd (updateItems E t items u st))) = heap st \<and>
   (list_all (\<lambda>a. a < length (heap st)) items \<longrightarrow>
      map (deref (snd (createItems E t items u st))) items = map (deref st) items \<and>
      map (deref (snd (updateItems E t items u st))) items = map (deref st) items)"
proof -
  from createItems_shape[of E t items u st] obtain e1 where
    c: "heap (snd (createItems E t items u st)) = heap st @ e1" by blast
  have "\<exists>e2. heap (snd (updateItems E t items u st)) = heap st @ e2"
  proof (cases "updateItems_notFoundIds t items st = []")
    case True
    from updateItems_shape[OF True, of E u] show ?thesis by blast
  next
    case False
    from updateItems_rejects[OF False, of E u] show ?thesis by simp
  qed
  then obtain e2 where u: "heap (snd (updateItems E t items u st)) = heap st @ e2" ..
  have "map (deref (snd (createItems E t items u st))) items = map (deref st) items \<and>
      map (deref (snd (updateItems E t items u st))) items = map (deref st) items"
    if "list_all (\<lambda>a. a < length (heap st)) items"
    using that c u by (auto simp: deref_def list_all_iff nth_append)
  with c u show ?thesis by simp
qed

text \<open>
  Two items naming row 1, on a table with both timestamp columns: after either call the two
  objects are what they were.
\<close>

theorem arguments_not_mutated_witness:
  "list_all (\<lambda>a. a < length (heap (example_state
       [[(''id'', Num 1), (''name'', Text ''b'')], [(''id'', Num 1), (''name'', Text ''c'')]]))) [0, 1] \<and>
   map (deref (snd (createItems (spec_History ticking_clock) ''widgets'' [0, 1] True (example_state
       [[(''id'', Num 1), (''name'', Text ''b'')], [(''id'', Num 1), (''name'', Text ''c'')]])))) [0, 1] =
     [[(''id'', Num 1), (''name'', Text ''b'')], [(''id'', Num 1), (''name'', Text ''c'')]] \<and>
   map (deref (snd (updateItems (spec_History ticking_clock) ''widgets'' [0, 1] True (example_state
       [[(''id'', Num 1), (''name'', Text ''b'')], [(''id'', Num 1), (''name'', Text ''c'')]])))) [0, 1] =
     [[(''id'', Num 1), (''name'', Text ''b'')], [(''id'', Num 1), (''name'', Text ''c'')]]"
proof -
  let ?st = "example_state [[(''id'', Num 1), (''name'', Text ''b'')], [(''id'', Num 1), (''name'', Text ''c'')]]"
  have h: "list_all (\<lambda>a. a < length (heap ?st)) [0, 1]"
    by (simp add: example_state_def)
  have d: "map (deref ?st) [0, 1] =
      [[(''id'', Num 1), (''name'', Text ''b'')], [(''id'', Num 1), (''name'', Text ''c'')]]"
    by (simp add: example_state_def deref_def)
  from arguments_not_mutated[of ?st "spec_History ticking_clock" "''widgets''" "[0, 1]" True] h
  have "map (deref (snd (createItems (spec_History ticking_clock) ''widgets'' [0, 1] True ?st))) [0, 1] =
        map (deref ?st) [0, 1] \<and>
      map (deref (snd (updateItems (spec_History ticking_clock) ''widgets'' [0, 1] True ?st))) [0, 1] =
        map (deref ?st) [0, 1]"
    by blast
  with h d show ?thesis by simp
qed

section \<open>Compensation and the finalizer\<close>

lemma count_loop_events:
  "list_all loop_event evs \<Longrightarrow> count_list evs IncrementUndoGroup = 0"
  by (induction evs) (auto simp: loop_event_def)

lemma compensated_loop_events: "list_all loop_event evs \<Longrightarrow> \<not> compensated evs"
  using compensated_member loop_events_no_history(2) by blast

lemma createItems_events:
  "\<exists>evs. list_all loop_event evs \<and>
     events_since st (snd (createItems E t items u st)) =
       [GetCurrentUndoGroup, IncrementUndoGroup] @ evs @
       (if success (fst (createItems E t items u st))
        then (if \<not> u \<and> advanced E st \<and> list_ex is_write evs then [DecrementLastUndoGroup] else [])
        else [PerformUndo, ClearMostRecentRedo]) @
       (if u then [IncrementUndoGroup] else [])"
proof -
  from createItems_shape[of E t items u st] obtain evs where
    "list_all loop_event evs"
    "trace (snd (createItems E t items u st)) =
       trace st @ ([GetCurrentUndoGroup, IncrementUndoGroup] @ evs @
       (if success (fst (createItems E t items u st))
        then (if \<not> u \<and> advanced E st \<and> list_ex is_write evs then [DecrementLastUndoGroup] else [])
        else [PerformUndo, ClearMostRecentRedo]) @
       (if u then [IncrementUndoGroup] else []))"
    by auto
  from this(1) events_since_append[OF this(2)] show ?thesis by blast
qed

lemma updateItems_events:
  assumes "updateItems_notFoundIds t items st = []"
  shows "\<exists>evs. list_all loop_event evs \<and>
     events_since st (snd (updateItems E t items u st)) =
       [GetCurrentUndoGroup, IncrementUndoGroup] @ evs @
       (if success (fst (updateItems E t items u st))
        then (if \<not> u \<and> advanced E st \<and> list_ex is_write evs then [DecrementLastUndoGroup] else [])
        else (if list_ex is_write evs then [PerformUndo, ClearMostRecentRedo] else [])) @
       (if u then [IncrementUndoGroup] else [])"
proof -
  from updateItems_shape[OF assms, of E u] obtain evs where
    "list_all loop_event evs"
    "trace (snd (updateItems E t items u st)) =
       trace st @ ([GetCurrentUndoGroup, IncrementUndoGroup] @ evs @
       (if success (fst (updateItems E t items u st))
        then (if \<not> u \<and> advanced E st \<and> list_ex is_write evs then [DecrementLastUndoGroup] else [])
        else (if list_ex is_write evs then [PerformUndo, ClearMostRecentRedo] else [])) @
       (if u then [IncrementUndoGroup] else []))"
    by auto
  from this(1) events_since_append[OF this(2)] show ?thesis by blast
qed

lemma deleteItems_events:
  assumes "deleteItems_notFoundIds t c ids st = []"
  shows "\<exists>evs. list_all loop_event evs \<and>
     events_since st (snd (deleteItems E t ids u c st)) =
       [GetCurrentUndoGroup, IncrementUndoGroup, IncrementUndoGroup] @ evs @
       (if success (fst (deleteItems E t ids u c st))
        then (if \<not> u \<and> advanced E st \<and> list_ex is_write evs then [DecrementLastUndoGroup] else [])
        else (if list_ex is_write evs then [PerformUndo, ClearMostRecentRedo] else [])) @
       (if u then [IncrementUndoGroup] else [])"
proof -
  from deleteItems_shape[OF assms, of E u] obtain evs where
    "list_all loop_event evs"
    "trace (snd (deleteItems E t ids u c st)) =
       trace st @ ([GetCurrentUndoGroup, IncrementUndoGroup, IncrementUndoGroup] @ evs @
       (if success (fst (deleteItems E t ids u c st))
        then (if \<not> u \<and> advanced E st \<and> list_ex is_write evs then [DecrementLastUndoGroup] else [])
        else (if list_ex is_write evs then [PerformUndo, ClearMostRecentRedo] else [])) @
       (if u then [IncrementUndoGroup] else []))"
    by auto
  from this(1) events_since_append[OF this(2)] show ?thesis by blast
qed

lemma rejected_events:
  "updateItems_notFoundIds t items st \<noteq> [] \<Longrightarrow> events_since st (snd (updateItems E t items u st)) = []"
  "deleteItems_notFoundIds t c ids st \<noteq> [] \<Longrightarrow> events_since st (snd (deleteItems E t ids u c st)) = []"
  by (simp_all add: updateItems_rejects deleteItems_rejects)

text \<open>
  C9, as the code has it. Called with \<open>useNextUndoGroup = True\<close>, \<open>createItems\<close> ends
  every call, successful or not, with one more call of \<open>incrementUndoGroup\<close>, its second;
  \<open>updateItems\<close> and \<open>deleteItems\<close> do so on every call whose pre-validation passes (for
  \<open>deleteItems\<close> it is the third call, the group being opened twice). When the
  pre-validation fails they return before the \<open>try\<close> block and call nothing.
\<close>

theorem finalizer_after_prevalidation:
  "last (events_since st (snd (createItems E t items True st))) = IncrementUndoGroup \<and>
   count_list (events_since st (snd (createItems E t items True st))) IncrementUndoGroup = 2 \<and>
   (list_all (\<lambda>item. has_row (db st) t ''rowid'' (prop_id (deref st item))) items \<longrightarrow>
      last (events_since st (snd (updateItems E t items True st))) = IncrementUndoGroup \<and>
      count_list (events_since st (snd (updateItems E t items True st))) IncrementUndoGroup = 2) \<and>
   (list_all (\<lambda>i. has_row (db st) t c (Some i)) ids \<longrightarrow>
      last (events_since st (snd (deleteItems E t ids True c st))) = IncrementUndoGroup \<and>
      count_list (events_since st (snd (deleteItems E t ids True c st))) IncrementUndoGroup = 3) \<and>
   (list_ex (\<lambda>item. \<not> has_row (db st) t ''rowid'' (prop_id (deref st item))) items \<longrightarrow>
      events_since st (snd (updateItems E t items True st)) = []) \<and>
   (list_ex (\<lambda>i. \<not> has_row (db st) t c (Some i)) ids \<longrightarrow>
      events_since st (snd (deleteItems E t ids True c st)) = [])"
proof -
  from createItems_events[of st E t items True] obtain evs where
    "list_all loop_event evs"
    "events_since st (snd (createItems E t items True st)) =
       [GetCurrentUndoGroup, IncrementUndoGroup] @ evs @
       (if success (fst (createItems E t items True st)) then [] else [PerformUndo, ClearMostRecentRedo]) @
       [IncrementUndoGroup]"
    by auto
  then have c: "last (events_since st (snd (createItems E t items True st))) = IncrementUndoGroup \<and>
      count_list (events_since st (snd (createItems E t items True st))) IncrementUndoGroup = 2"
    by (simp add: count_loop_events)
  have u: "last (events_since st (snd (updateItems E t items True st))) = IncrementUndoGroup \<and>
      count_list (events_since st (snd (updateItems E t items True st))) IncrementUndoGroup = 2"
    if "list_all (\<lambda>item. has_row (db st) t ''rowid'' (prop_id (deref st item))) items"
  proof -
    from that have "updateItems_notFoundIds t items st = []"
      by (simp add: list_all_has_row_update)
    from updateItems_events[OF this, of E True] obtain evs where
      "list_all loop_event evs"
      "events_since st (snd (updateItems E t items True st)) =
         [GetCurrentUndoGroup, IncrementUndoGroup] @ evs @
         (if success (fst (updateItems E t items True st)) then []
          else (if list_ex is_write evs then [PerformUndo, ClearMostRecentRedo] else [])) @
         [IncrementUndoGroup]"
      by auto
    then show ?thesis by (simp add: count_loop_events)
  qed
  have d: "last (events_since st (snd (deleteItems E t ids True c st))) = IncrementUndoGroup \<and>
      count_list (events_since st (snd (deleteItems E t ids True c st))) IncrementUndoGroup = 3"
    if "list_all (\<lambda>i. has_row (db st) t c (Some i)) ids"
  proof -
    from that have "deleteItems_notFoundIds t c ids st = []"
      by (simp add: list_all_has_row_delete)
    from deleteItems_events[OF this, of E True] obtain evs where
      "list_all loop_event evs"
      "events_since st (snd (deleteItems E t ids True c st)) =
         [GetCurrentUndoGroup, IncrementUndoGroup, IncrementUndoGroup] @ evs @
         (if success (fst (deleteItems E t ids True c st)) then []
          else (if list_ex is_write evs then [PerformUndo, ClearMostRecentRedo] else [])) @
         [IncrementUndoGroup]"
      by auto
    then show ?thesis by (simp add: count_loop_events)
  qed
  have ru: "events_since st (snd (updateItems E t items True st)) = []"
    if "list_ex (\<lambda>item. \<not> has_row (db st) t ''rowid'' (prop_id (deref st item))) items"
    using that rejected_events(1)[of t items st E True]
    by (simp add: updateItems_notFoundIds_nonempty)
  have rd: "events_since st (snd (deleteItems E t ids True c st)) = []"
    if "list_ex (\<lambda>i. \<not> has_row (db st) t c (Some i)) ids"
    using that rejected_events(2)[of t c ids st E True]
    by (simp add: deleteItems_notFoundIds_nonempty)
  from c u d ru rd show ?thesis by blast
qed

text \<open>
  With row 1 in the table, the three operations end on the finalizer's call; asked for the
  missing row 9999, \<open>updateItems\<close> and \<open>deleteItems\<close> fail and call nothing.
\<close>

theorem finalizer_after_prevalidation_witness:
  "list_all (\<lambda>item. has_row (db (example_state [[(''id'', Num 1), (''name'', Text ''x'')]])) ''widgets''
      ''rowid'' (prop_id (deref (example_state [[(''id'', Num 1), (''name'', Text ''x'')]]) item))) [0] \<and>
   last (events_since (example_state [[(''id'', Num 1), (''name'', Text ''x'')]])
     (snd (updateItems (spec_History ticking_clock) ''widgets'' [0] True
        (example_state [[(''id'', Num 1), (''name'', Text ''x'')]])))) = IncrementUndoGroup \<and>
   count_list (events_since (example_state [[(''id'', Num 1), (''name'', Text ''x'')]])
     (snd (updateItems (spec_History ticking_clock) ''widgets'' [0] True
        (example_state [[(''id'', Num 1), (''name'', Text ''x'')]])))) IncrementUndoGroup = 2 \<and>
   list_all (\<lambda>i. has_row (db (example_state [[(''id'', Num 1), (''name'', Text ''x'')]])) ''widgets''
      ''rowid'' (Some i)) [1] \<and>
   last (events_since (example_state [[(''id'', Num 1), (''name'', Text ''x'')]])
     (snd (deleteItems (spec_History ticking_clock) ''widgets'' [1] True ''rowid''
        (example_state [[(''id'', Num 1), (''name'', Text ''x'')]])))) = IncrementUndoGroup \<and>
   count_list (events_since (example_state [[(''id'', Num 1), (''name'', Text ''x'')]])
     (snd (deleteItems (spec_History ticking_clock) ''widgets'' [1] True ''rowid''
        (example_state [[(''id'', Num 1), (''name'', Text ''x'')]])))) IncrementUndoGroup = 3 \<and>
   list_ex (\<lambda>item. \<not> has_row (db (example_state [[(''id'', Num 9999)]])) ''widgets''
      ''rowid'' (prop_id (deref (example_state [[(''id'', Num 9999)]]) item))) [0] \<and>
   events_since (example_state [[(''id'', Num 9999)]])
     (snd (updateItems (spec_History ticking_clock) ''widgets'' [0] True
        (example_state [[(''id'', Num 9999)]]))) = [] \<and>
   list_ex (\<lambda>i. \<not> has_row (db (example_state [[(''id'', Num 9999)]])) ''widgets'' ''rowid'' (Some i))
      [9999] \<and>
   events_since (example_state [[(''id'', Num 9999)]])
     (snd (deleteItems (spec_History ticking_clock) ''widgets'' [9999] True ''rowid''
        (example_state [[(''id'', Num 9999)]]))) = []"
proof -
  let ?E = "spec_History ticking_clock"
  let ?st = "example_state [[(''id'', Num 1), (''name'', Text ''x'')]]"
  let ?st' = "example_state [[(''id'', Num 9999)]]"
  have h1: "list_all (\<lambda>item. has_row (db ?st) ''widgets'' ''rowid'' (prop_id (deref ?st item))) [0]"
    by (simp add: example_simps js_simps store_simps)
  have h2: "list_all (\<lambda>i. has_row (db ?st) ''widgets'' ''rowid'' (Some i)) [1]"
    by (simp add: example_simps js_simps store_simps)
  have h3: "list_ex (\<lambda>item. \<not> has_row (db ?st') ''widgets'' ''rowid'' (prop_id (deref ?st' item))) [0]"
    by (simp add: example_simps js_simps store_simps)
  have h4: "list_ex (\<lambda>i. \<not> has_row (db ?st') ''widgets'' ''rowid'' (Some i)) [9999]"
    by (simp add: example_simps js_simps store_simps)
  note a = finalizer_after_prevalidation[of ?st ?E "''widgets''" "[0]" "''rowid''" "[1]"]
  note b = finalizer_after_prevalidation[of ?st' ?E "''widgets''" "[0]" "''rowid''" "[9999]"]
  from a b h1 h2 h3 h4 show ?thesis by blast
qed

text \<open>
  As the spec words it (on every exit path) the property fails on the exit path of a failed
  pre-validation: \<open>updateItems\<close>,
  called with \<open>useNextUndoGroup = True\<close> for the missing row 9999, returns
  \<open>success = False\<close> and has called \<open>incrementUndoGroup\<close> not once.
\<close>

theorem finalizer_skipped_counterexample:
  "success (fst (updateItems (spec_History ticking_clock) ''widgets'' [0] True
       (example_state [[(''id'', Num 9999)]]))) = False \<and>
   count_list (events_since (example_state [[(''id'', Num 9999)]])
     (snd (updateItems (spec_History ticking_clock) ''widgets'' [0] True
        (example_state [[(''id'', Num 9999)]])))) IncrementUndoGroup = 0 \<and>
   cur_undo_group (db (snd (updateItems (spec_History ticking_clock) ''widgets'' [0] True
        (example_state [[(''id'', Num 9999)]])))) =
     cur_undo_group (db (example_state [[(''id'', Num 9999)]]))"
proof -
  let ?st' = "example_state [[(''id'', Num 9999)]]"
  have "updateItems_notFoundIds ''widgets'' [0] ?st' \<noteq> []"
    by (simp add: updateItems_notFoundIds_def example_simps js_simps store_simps getItem_def)
  from updateItems_rejects[OF this, of "spec_History ticking_clock" True]
  show ?thesis by simp
qed




section \<open>Merging the last undo group\<close>

text \<open>
  C7. The history log holds a record of group 0 and a record of group 1. The maximum is 1
  and the largest smaller group is 0, so the record of group 1 should move to group 0; but
  \<open>if (previousGroup)\<close> reads 0 as "no previous group", and the log stays as it is.
\<close>

theorem decrementLastUndoGroup_previous_group_zero:
  "undo_log (decrementLastUndoGroup
     \<lparr>tables = [(''widgets'', widgets)],
      undo_log = [\<lparr>history_group = 0, change = Inserted ''widgets'' 1\<rparr>,
                  \<lparr>history_group = 1, change = Inserted ''widgets'' 2\<rparr>],
      redo_log = [], cur_undo_group = 1\<rparr>) =
   [\<lparr>history_group = 0, change = Inserted ''widgets'' 1\<rparr>,
    \<lparr>history_group = 1, change = Inserted ''widgets'' 2\<rparr>]"
  by (simp add: decrementLastUndoGroup_def)

section \<open>A row without an id\<close>

text \<open>
  C8. A batch for \<open>updateItems\<close> whose first row has no \<open>id\<close> and whose second row names
  the existing row 1. The pre-validation looks \<open>undefined\<close> up, finds nothing, and the call
  returns \<open>success = False\<close> with the state untouched: row 1 is not updated and no warning
  is logged. The branch that skips such a row with a warning is never reached.
\<close>

theorem updateItems_row_without_id:
  \<open>updateItems E ''widgets'' [0, 1] u
     (example_state [[(''name'', Text ''x'')], [(''id'', Num 1), (''name'', Text ''y'')]]) =
   (\<lparr>success = False,
     error = Some \<lparr>message = ''No items with ids [] in table "widgets"'', stack = None\<rparr>,
     data = []\<rparr>,
    example_state [[(''name'', Text ''x'')], [(''id'', Num 1), (''name'', Text ''y'')]])\<close>
proof -
  let ?st = "example_state [[(''name'', Text ''x'')], [(''id'', Num 1), (''name'', Text ''y'')]]"
  have nf: "updateItems_notFoundIds ''widgets'' [0, 1] ?st = [None]"
    by (simp add: updateItems_notFoundIds_def example_simps js_simps store_simps getItem_def)
  then have "updateItems_notFoundIds ''widgets'' [0, 1] ?st \<noteq> []" by simp
  from updateItems_rejects[OF this, of E u] nf show ?thesis
    by (simp add: join_elem_def)
qed

lemma updateItems_missing_id_rejected:
  assumes "list_ex (\<lambda>item. prop_id (deref st item) = None) items"
  shows "\<not> success (fst (updateItems E t items u st))" and "snd (updateItems E t items u st) = st"
proof -
  from assms obtain item where item: "item \<in> set items" "prop_id (deref st item) = None"
    by (auto simp: list_ex_iff)
  have "\<not> has_row (db st) t ''rowid'' None"
    by (simp add: has_row_def split: option.splits)
  with item(2) have "\<not> has_row (db st) t ''rowid'' (prop_id (deref st item))"
    by simp
  with item(1) have "list_ex (\<lambda>item. \<not> has_row (db st) t ''rowid'' (prop_id (deref st item))) items"
    unfolding list_ex_iff by blast
  then have "updateItems_notFoundIds t items st \<noteq> []"
    by (simp add: updateItems_notFoundIds_nonempty)
  from updateItems_rejects[OF this, of E u]
  show "\<not> success (fst (updateItems E t items u st))" and "snd (updateItems E t items u st) = st"
    by simp_all
qed

section \<open>The undo history of a batch\<close>



lemma appended_refl [simp]: "appended d d"
  by (simp add: appended_def)











subsection \<open>What \<open>decrementLastUndoGroup\<close> does to it\<close>





subsection \<open>The store after a successful call that does not open its own step\<close>




lemma spec_History_simps [simp]:
  "getCurrentUndoGroup (spec_History clock) d = cur_undo_group d"
  "incrementUndoGroup (spec_History clock) d =
     (cur_undo_group d + 1, d\<lparr>cur_undo_group := cur_undo_group d + 1\<rparr>)"
  "advanced (spec_History clock) st"
  by (simp_all add: spec_History_def spec_getCurrentUndoGroup_def spec_incrementUndoGroup_def
      advanced_def)

lemma merged_events_write:
  assumes "list_all loop_event evs"
    and "list_ex is_write (pre @ evs @ (if b \<and> list_ex is_write evs then [DecrementLastUndoGroup] else []))"
    and "\<not> list_ex is_write pre"
  shows "list_ex is_write evs"
  using assms by (auto split: if_splits)







section \<open>Creating two rows\<close>
















end
